theory Spec2Isabelle
  imports Complex_Main
begin

section \<open>Python exceptions\<close>

text \<open>
  Every \<^verbatim>\<open>raise\<close>, failed \<^verbatim>\<open>assert\<close> and library exception of the modelled
  code is a value of this type; a function that may raise returns \<open>py_error + 'a\<close>
  with \<open>Inl\<close> for the exception.
\<close>

datatype py_error =
  AssertionError | AttributeError | IndexError | RuntimeError | TypeError | ValueError

section \<open>The launch script \<^verbatim>\<open>job.py\<close>\<close>

text \<open>The parsed command line: every option defaults to \<^verbatim>\<open>None\<close>.\<close>

record job_args =
  args_log_dir :: "string option"
  args_data_dir :: "string option"
  args_wandb :: "string option"
  args_part :: "int option"
  args_total_parts :: "int option"

datatype hval = VNone | VBool bool | VInt int | VFloat real | VStr string

type_synonym hps = "string \<rightharpoonup> hval"

definition opt_str :: "string option \<Rightarrow> hval" where
  "opt_str s = (case s of None \<Rightarrow> VNone | Some x \<Rightarrow> VStr x)"

text \<open>\<^verbatim>\<open>f"{args.log_dir}"\<close>: the formatted string of \<^verbatim>\<open>None\<close> is the text None.\<close>

definition fmt_str :: "string option \<Rightarrow> string" where
  "fmt_str s = (case s of None \<Rightarrow> ''None'' | Some x \<Rightarrow> x)"

definition initial_hps :: "job_args \<Rightarrow> hps" where
  "initial_hps args =
     [''log_dir'' \<mapsto> VStr (fmt_str (args_log_dir args)),
      ''overwrite_existing_exp'' \<mapsto> VBool True,
      ''qm9_h5_path'' \<mapsto> VStr ''/data/chem/qm9/qm9.h5'',
      ''num_data_loader_workers'' \<mapsto> VInt 0,
      ''num_training_steps'' \<mapsto> VInt 20000,
      ''global_batch_size'' \<mapsto> VInt 64,
      ''validate_every'' \<mapsto> VInt 500,
      ''lr_decay'' \<mapsto> VInt 20000,
      ''temperature_dist_params'' \<mapsto> VFloat 32,
      ''temperature_sample_dist'' \<mapsto> VStr ''constant'',
      ''sampling_tau'' \<mapsto> VFloat (99 / 100),
      ''mp_pickle_messages'' \<mapsto> VBool True,
      ''offline_ratio'' \<mapsto> VFloat 0,
      ''data_dir'' \<mapsto> opt_str (args_data_dir args),
      ''wandb'' \<mapsto> opt_str (args_wandb args)]"

text \<open>
  A method call \<^verbatim>\<open>hps.<name>({key: value})\<close> on a \<^verbatim>\<open>dict\<close>. Of the two names the
  script uses, \<^verbatim>\<open>update\<close> is a method of \<^verbatim>\<open>dict\<close> and stores the pair; a name that
  is no attribute of \<^verbatim>\<open>dict\<close> raises \<^verbatim>\<open>AttributeError\<close> at the attribute lookup.
\<close>

definition dict_call :: "string \<Rightarrow> hps \<Rightarrow> string \<Rightarrow> hval \<Rightarrow> py_error + hps" where
  "dict_call name d k v = (if name = ''update'' then Inr (d(k \<mapsto> v)) else Inl AttributeError)"

text \<open>Lines 19 to 44 of \<^verbatim>\<open>job.py\<close>: the hyperparameter record and the sharding block.\<close>

definition job_configure :: "job_args \<Rightarrow> py_error + hps" where
  "job_configure args =
     (let hps = initial_hps args in
      case (args_part args, args_total_parts args) of
        (Some p, Some t) \<Rightarrow>
          if t > 1 then
            (case dict_call ''update'' hps ''part'' (VInt p) of
               Inl e \<Rightarrow> Inl e
             | Inr hps1 \<Rightarrow>
            (case dict_call ''update'' hps1 ''total_parts'' (VInt t) of
               Inl e \<Rightarrow> Inl e
             | Inr hps2 \<Rightarrow> dict_call ''upate'' hps2 ''offline_ratio'' (VFloat (1 / 4))))
          else Inr hps
      | _ \<Rightarrow> Inr hps)"

text \<open>
  The rest of the script, as the trace of its effects: the log directory is wiped and
  recreated, the trainer is constructed and run. The first argument of \<open>job_main\<close>
  says whether the log directory exists. The result is the effects performed and the
  exception that ended the script, if any.
\<close>

datatype job_event = RmTree string | MakeDirs string | ConstructTrainer hps | RunTrainer

definition job_main :: "bool \<Rightarrow> job_args \<Rightarrow> job_event list \<times> py_error option" where
  "job_main log_dir_exists args =
     (case job_configure args of
        Inl e \<Rightarrow> ([], Some e)
      | Inr hps \<Rightarrow>
          let ld = fmt_str (args_log_dir args) in
          if log_dir_exists then
            (if hps ''overwrite_existing_exp'' = Some (VBool True)
                \<and> Some (VStr ld) \<noteq> hps ''data_dir''
             then ([RmTree ld, MakeDirs ld, ConstructTrainer hps, RunTrainer], None)
             else ([], Some ValueError))
          else ([MakeDirs ld, ConstructTrainer hps, RunTrainer], None))"

section \<open>Tensors\<close>

text \<open>
  Tensor entries are real numbers: rounding and overflow of 32-bit floats are not
  modelled. The output of the proxy network is the one place where the code tests for
  NaN, so its entries are either a number or NaN.
\<close>

datatype fl = Fin real | NaN

text \<open>\<^verbatim>\<open>clip\<close> and division keep a NaN; \<^verbatim>\<open>t[t.isnan()] = 0\<close> replaces it by 0.\<close>

definition clip :: "real \<Rightarrow> real \<Rightarrow> real \<Rightarrow> real" where
  "clip lo hi x = min (max x lo) hi"

fun fl_clip :: "real \<Rightarrow> real \<Rightarrow> fl \<Rightarrow> fl" where
  "fl_clip lo hi (Fin x) = Fin (clip lo hi x)"
| "fl_clip lo hi NaN = NaN"

fun fl_div :: "fl \<Rightarrow> real \<Rightarrow> fl" where
  "fl_div (Fin x) d = Fin (x / d)"
| "fl_div NaN d = NaN"

fun nan_to_zero :: "fl \<Rightarrow> real" where
  "nan_to_zero (Fin x) = x"
| "nan_to_zero NaN = 0"

text \<open>
  A 2-D tensor is its list of rows with the column count (which an empty tensor of
  shape \<open>(0, k)\<close> still has). A 1-D tensor is a list.
\<close>

record tensor2 =
  ncols :: nat
  rows :: "real list list"

definition nrows :: "tensor2 \<Rightarrow> nat" where
  "nrows t = length (rows t)"

definition wf_tensor2 :: "tensor2 \<Rightarrow> bool" where
  "wf_tensor2 t = list_all (\<lambda>r. length r = ncols t) (rows t)"

definition zeros :: "nat \<Rightarrow> nat \<Rightarrow> tensor2" where
  "zeros n k = \<lparr>ncols = k, rows = replicate n (replicate k 0)\<rparr>"

definition ones :: "nat \<Rightarrow> nat \<Rightarrow> tensor2" where
  "ones n k = \<lparr>ncols = k, rows = replicate n (replicate k 1)\<rparr>"

text \<open>\<^verbatim>\<open>t.reshape((-1, 1))\<close> of a 1-D tensor: one row per entry.\<close>

definition reshape_col :: "real list \<Rightarrow> tensor2" where
  "reshape_col xs = \<lparr>ncols = 1, rows = map (\<lambda>x. [x]) xs\<rparr>"

text \<open>
  \<^verbatim>\<open>torch.stack(cols, dim=1)\<close> of 1-D tensors: the tensors become the columns. An empty
  list of tensors and tensors of different lengths raise \<^verbatim>\<open>RuntimeError\<close>.
\<close>

definition stack_dim1 :: "real list list \<Rightarrow> py_error + tensor2" where
  "stack_dim1 cols =
     (case cols of
        [] \<Rightarrow> Inl RuntimeError
      | c # cs \<Rightarrow>
          if list_all (\<lambda>d. length d = length c) cs
          then Inr \<lparr>ncols = length cols,
                    rows = map (\<lambda>i. map (\<lambda>d. d ! i) cols) [0..<length c]\<rparr>
          else Inl RuntimeError)"

text \<open>
  \<^verbatim>\<open>torch.cat([a, b], 1)\<close> of 2-D tensors: the rows are joined; different row counts
  raise \<^verbatim>\<open>RuntimeError\<close>.
\<close>

definition cat_dim1 :: "tensor2 \<Rightarrow> tensor2 \<Rightarrow> py_error + tensor2" where
  "cat_dim1 a b =
     (if nrows a = nrows b
      then Inr \<lparr>ncols = ncols a + ncols b, rows = map2 (@) (rows a) (rows b)\<rparr>
      else Inl RuntimeError)"

text \<open>
  \<^verbatim>\<open>t.squeeze()\<close> of a 2-D tensor drops every dimension of size 1: the result is the
  remaining shape with the entries in row-major order.
\<close>

definition squeeze :: "tensor2 \<Rightarrow> nat list \<times> real list" where
  "squeeze t = (filter (\<lambda>d. d \<noteq> 1) [nrows t, ncols t], concat (rows t))"

text \<open>
  A 1-D array is a numpy array or a torch tensor. The two libraries broadcast alike and
  differ in the exception for sizes that do not broadcast: numpy raises \<^verbatim>\<open>ValueError\<close>,
  torch \<^verbatim>\<open>RuntimeError\<close>.
\<close>

datatype array_lib = Numpy | Torch

definition broadcast_error :: "array_lib \<Rightarrow> py_error" where
  "broadcast_error lib = (case lib of Numpy \<Rightarrow> ValueError | Torch \<Rightarrow> RuntimeError)"

text \<open>
  Broadcasting of one dimension: equal sizes, or one of them 1. \<open>mul1 lib a b\<close> is the
  elementwise product of a 1-D torch tensor \<open>a\<close> with a 1-D array \<open>b\<close> of the library
  \<open>lib\<close>, \<open>mul2\<close> the product of two 2-D torch tensors, both under broadcasting.
\<close>

definition bdim :: "nat \<Rightarrow> nat \<Rightarrow> nat option" where
  "bdim a b = (if a = b then Some a else if a = 1 then Some b
               else if b = 1 then Some a else None)"

definition bidx :: "nat \<Rightarrow> nat \<Rightarrow> nat" where
  "bidx sz i = (if sz = 1 then 0 else i)"

definition mul1 :: "array_lib \<Rightarrow> real list \<Rightarrow> real list \<Rightarrow> py_error + real list" where
  "mul1 lib a b =
     (case bdim (length a) (length b) of
        None \<Rightarrow> Inl (broadcast_error lib)
      | Some n \<Rightarrow>
          Inr (map (\<lambda>i. a ! bidx (length a) i * b ! bidx (length b) i) [0..<n]))"

definition mul2 :: "tensor2 \<Rightarrow> tensor2 \<Rightarrow> py_error + tensor2" where
  "mul2 a b =
     (case (bdim (nrows a) (nrows b), bdim (ncols a) (ncols b)) of
        (Some n, Some k) \<Rightarrow>
          Inr \<lparr>ncols = k,
               rows = map (\<lambda>i. map (\<lambda>j.
                          rows a ! bidx (nrows a) i ! bidx (ncols a) j
                        * rows b ! bidx (nrows b) i ! bidx (ncols b) j) [0..<k]) [0..<n]\<rparr>
      | _ \<Rightarrow> Inl RuntimeError)"

text \<open>\<^verbatim>\<open>t.sum(1)\<close> of a 2-D tensor: the sum of each row.\<close>

definition sum_dim1 :: "tensor2 \<Rightarrow> real list" where
  "sum_dim1 t = map sum_list (rows t)"

section \<open>Conditioning information\<close>

text \<open>
  The dictionary returned by the conditioning sampler: \<^verbatim>\<open>beta\<close> is a 1-D array (both
  functions that build it assert so), a numpy array when it is sampled and a torch
  tensor when it is built for fixed preferences; \<^verbatim>\<open>encoding\<close> is 2-D. The
  multi-objective task adds the key \<^verbatim>\<open>preferences\<close>.
\<close>

record cond_info =
  beta :: "real list"
  beta_lib :: array_lib
  encoding :: tensor2

record cond_info_moo = cond_info +
  preferences :: tensor2

section \<open>The single-objective task \<^verbatim>\<open>SEHTask\<close>\<close>

datatype temp_params = PFloat real | PPair real real

text \<open>
  The task object. The last four fields are the external collaborators it holds or
  reaches: \<^verbatim>\<open>bengio2021flow.mol2graph\<close> (\<^verbatim>\<open>None\<close> for a molecule with no graph), the
  proxy network \<^verbatim>\<open>models["seh"]\<close> applied to a batch of graphs and flattened, the
  classifier \<^verbatim>\<open>models["kmeans"]\<close> applied to the list of molecules, and the telemetry
  block guarded by \<^verbatim>\<open>wandb.run is not None\<close>: \<^verbatim>\<open>None\<close> when there is no run, otherwise
  the outcome of the block on the classes (it reads them, plots and logs; \<^verbatim>\<open>Some e\<close>
  when one of its library calls raises \<open>e\<close>).
\<close>

record ('m, 'g) SEHTask =
  part :: "int option"
  total_parts :: "int option"
  temperature_sample_dist :: string
  temperature_dist_params :: temp_params
  num_thermometer_dim :: nat
  mol2graph :: "'m \<Rightarrow> 'g option"
  seh_model :: "'g list \<Rightarrow> fl list"
  kmeans_model :: "'m list \<Rightarrow> int list"
  wandb_run :: "(int list \<Rightarrow> py_error option) option"

definition flat_reward_transform :: "real \<Rightarrow> real" where
  "flat_reward_transform y = y / 8"

definition is_graph :: "'g option \<Rightarrow> bool" where
  "is_graph g = (case g of None \<Rightarrow> False | Some _ \<Rightarrow> True)"

text \<open>\<^verbatim>\<open>[i for i in graphs if i is not None]\<close>\<close>

definition valid_graphs :: "'g option list \<Rightarrow> 'g list" where
  "valid_graphs graphs = List.map_filter id graphs"

text \<open>
  \<^verbatim>\<open>preds[mask] = 0\<close> with a boolean mask: the mask must have the shape of the tensor,
  otherwise the indexing raises \<^verbatim>\<open>IndexError\<close>.
\<close>

definition mask_zero :: "real list \<Rightarrow> bool list \<Rightarrow> py_error + real list" where
  "mask_zero preds msk =
     (if length msk = length preds
      then Inr (map2 (\<lambda>x m. if m then 0 else x) preds msk)
      else Inl IndexError)"

definition compute_flat_rewards ::
  "('m, 'g, 'z) SEHTask_scheme \<Rightarrow> 'm list \<Rightarrow> py_error + (tensor2 \<times> bool list)" where
  "compute_flat_rewards t mols =
     (let graphs = map (mol2graph t) mols;
          is_valid = map is_graph graphs
      in if \<not> list_ex id is_valid then Inr (zeros 0 1, is_valid)
         else
           let preds = map nan_to_zero (seh_model t (valid_graphs graphs));
               finish = (\<lambda>ps. Inr (reshape_col
                           (map (\<lambda>y. clip (1 / 10 ^ 4) 100 (flat_reward_transform y)) ps),
                           is_valid))
           in case part t of
                None \<Rightarrow> finish preds
              | Some p \<Rightarrow>
                  let parts = kmeans_model t mols in
                  (case (case wandb_run t of None \<Rightarrow> None | Some telemetry \<Rightarrow> telemetry parts) of
                     Some e \<Rightarrow> Inl e
                   | None \<Rightarrow>
                       (case mask_zero preds (map (\<lambda>q. q \<noteq> p) parts) of
                          Inl e \<Rightarrow> Inl e
                        | Inr preds' \<Rightarrow> finish preds')))"

text \<open>
  \<^verbatim>\<open>cond_info_to_logreward\<close>: the reward tensor (a list is first turned into one) is
  squeezed, clamped from below and its logarithm taken; the assertion compares the
  numbers of dimensions; the product with \<^verbatim>\<open>beta\<close> broadcasts.
\<close>

definition cond_info_to_logreward ::
  "'c cond_info_scheme \<Rightarrow> tensor2 \<Rightarrow> py_error + real list" where
  "cond_info_to_logreward ci flat_reward =
     (let (shape, entries) = squeeze flat_reward;
          scalar_logreward = map (\<lambda>x. ln (max x (1 / 10 ^ 30))) entries
      in if length shape \<noteq> length [length (beta ci)] then Inl AssertionError
         else mul1 (beta_lib ci) scalar_logreward (beta ci))"

section \<open>The multi-objective task \<^verbatim>\<open>SEHMOOTask\<close>\<close>

text \<open>
  The subclass adds the objectives, the preference settings and the three descriptor
  functions of the cheminformatics toolkit (\<^verbatim>\<open>QED.qed\<close>, \<^verbatim>\<open>sascore.calculateScore\<close>,
  \<^verbatim>\<open>Descriptors.MolWt\<close>), each of which may raise on a molecule.
\<close>

record ('m, 'g) SEHMOOTask = "('m, 'g) SEHTask" +
  objectives :: "string list"
  use_pref_thermometer :: bool
  seeded_preference :: "real list option"
  experimental_dirichlet :: bool
  QED_qed :: "'m \<Rightarrow> py_error + real"
  calculateScore :: "'m \<Rightarrow> py_error + real"
  MolWt :: "'m \<Rightarrow> py_error + real"

text \<open>The assertion that ends \<^verbatim>\<open>SEHMOOTask.__init__\<close>.\<close>

definition objectives_ok :: "string list \<Rightarrow> bool" where
  "objectives_ok objs =
     (set objs \<subseteq> {''seh'', ''qed'', ''sa'', ''mw''} \<and> length objs = card (set objs))"

text \<open>\<^verbatim>\<open>safe(f, x, default)\<close>: any exception of \<open>f\<close> is replaced by the default.\<close>

definition safe :: "('m \<Rightarrow> py_error + real) \<Rightarrow> 'm \<Rightarrow> real \<Rightarrow> real" where
  "safe f x dflt = (case f x of Inl e \<Rightarrow> dflt | Inr y \<Rightarrow> y)"

text \<open>\<^verbatim>\<open>[... for i, v in zip(mols, is_valid) if v.item()]\<close>\<close>

definition valid_mols :: "'m list \<Rightarrow> bool list \<Rightarrow> 'm list" where
  "valid_mols mols is_valid = map fst (filter snd (zip mols is_valid))"

definition seh_column :: "('m, 'g, 'z) SEHTask_scheme \<Rightarrow> 'g list \<Rightarrow> real list" where
  "seh_column t batch =
     map nan_to_zero (map (\<lambda>p. fl_div (fl_clip (1 / 10 ^ 4) 100 p) 8) (seh_model t batch))"

text \<open>
  The list \<^verbatim>\<open>flat_rewards\<close> of \<^verbatim>\<open>compute_flat_rewards\<close> before it is stacked: one 1-D
  tensor per configured objective, always in the order seh, qed, sa, mw.
\<close>

definition flat_reward_columns ::
  "('m, 'g, 'z) SEHMOOTask_scheme \<Rightarrow> 'm list \<Rightarrow> real list list" where
  "flat_reward_columns t mols =
     (let graphs = map (mol2graph t) mols;
          is_valid = map is_graph graphs;
          vm = valid_mols mols is_valid;
          c_seh = (if ''seh'' \<in> set (objectives t)
                   then [seh_column t (valid_graphs graphs)] else []);
          c_qed = (if ''qed'' \<in> set (objectives t)
                   then [map (\<lambda>i. safe (QED_qed t) i 0) vm] else []);
          c_sa = (if ''sa'' \<in> set (objectives t)
                  then [map (\<lambda>s. (10 - s) / 9)
                          (map (\<lambda>i. safe (calculateScore t) i 10) vm)] else []);
          c_mw = (if ''mw'' \<in> set (objectives t)
                  then [map (\<lambda>w. clip 0 1 ((300 - w) / 700 + 1))
                          (map (\<lambda>i. safe (MolWt t) i 1000) vm)] else [])
      in c_seh @ c_qed @ c_sa @ c_mw)"

definition moo_compute_flat_rewards ::
  "('m, 'g, 'z) SEHMOOTask_scheme \<Rightarrow> 'm list \<Rightarrow> py_error + (tensor2 \<times> bool list)" where
  "moo_compute_flat_rewards t mols =
     (let graphs = map (mol2graph t) mols;
          is_valid = map is_graph graphs
      in if \<not> list_ex id is_valid then Inr (zeros 0 (length (objectives t)), is_valid)
         else
           (case stack_dim1 (flat_reward_columns t mols) of
              Inl e \<Rightarrow> Inl e
            | Inr flat_rewards \<Rightarrow> Inr (flat_rewards, is_valid)))"

text \<open>
  The position of an objective's column in the stacked tensor: the number of configured
  objectives that come before it in the order seh, qed, sa, mw.
\<close>

definition objective_column :: "string list \<Rightarrow> string \<Rightarrow> nat" where
  "objective_column objs name =
     length (filter (\<lambda>ob. ob \<in> set objs)
               (takeWhile (\<lambda>ob. ob \<noteq> name) [''seh'', ''qed'', ''sa'', ''mw'']))"

definition moo_cond_info_to_logreward ::
  "'c cond_info_moo_scheme \<Rightarrow> tensor2 \<Rightarrow> py_error + real list" where
  "moo_cond_info_to_logreward ci flat_reward =
     (case mul2 flat_reward (preferences ci) of
        Inl e \<Rightarrow> Inl e
      | Inr weighted \<Rightarrow>
          let scalar_logreward = map (\<lambda>x. ln (max x (1 / 10 ^ 30))) (sum_dim1 weighted)
          in if length [length scalar_logreward] \<noteq> length [length (beta ci)]
             then Inl AssertionError
             else mul1 (beta_lib ci) scalar_logreward (beta ci))"

section \<open>The conditioning sampler\<close>

text \<open>
  Modelled from the spec: \<^verbatim>\<open>gflownet.utils.transforms.thermometer\<close> is imported by the
  tasks and is not among the source files. Given a scalar \<open>x\<close> and dimension \<open>d\<close> over
  the range \<open>[lo, hi]\<close> it produces a vector of length \<open>d\<close> whose \<open>i\<close>-th entry is
  \<open>clip((x - lo) / (hi - lo) * d - i, 0, 1)\<close>. It acts on every entry of a tensor and
  appends a dimension of size \<open>d\<close>.
\<close>

definition thermometer :: "real \<Rightarrow> nat \<Rightarrow> real \<Rightarrow> real \<Rightarrow> real list" where
  "thermometer x d lo hi =
     map (\<lambda>i. clip 0 1 ((x - lo) / (hi - lo) * real d - real i)) [0..<d]"

definition thermometer1 :: "real list \<Rightarrow> nat \<Rightarrow> real \<Rightarrow> real \<Rightarrow> tensor2" where
  "thermometer1 xs d lo hi = \<lparr>ncols = d, rows = map (\<lambda>x. thermometer x d lo hi) xs\<rparr>"

text \<open>The 3-D result on a 2-D tensor, as a list of matrices with its last two sizes.\<close>

record tensor3 =
  dims :: "nat \<times> nat"
  mats :: "real list list list"

definition thermometer2 :: "tensor2 \<Rightarrow> nat \<Rightarrow> real \<Rightarrow> real \<Rightarrow> tensor3" where
  "thermometer2 t d lo hi =
     \<lparr>dims = (ncols t, d),
      mats = map (\<lambda>r. map (\<lambda>x. thermometer x d lo hi) r) (rows t)\<rparr>"

text \<open>
  \<^verbatim>\<open>t.reshape(n, -1)\<close> of a 3-D tensor whose first size is \<open>n\<close>: each matrix becomes one
  row. With \<open>n = 0\<close> the size \<open>-1\<close> cannot be inferred and \<^verbatim>\<open>reshape\<close> raises
  \<^verbatim>\<open>RuntimeError\<close>.
\<close>

definition reshape_rows :: "tensor3 \<Rightarrow> py_error + tensor2" where
  "reshape_rows t =
     (if length (mats t) = 0 then Inl RuntimeError
      else Inr \<lparr>ncols = fst (dims t) * snd (dims t), rows = map concat (mats t)\<rparr>)"

text \<open>
  The random generators in their current state and the quantile function of the gamma
  distribution. A sampler called for \<open>n\<close> draws yields \<open>n\<close> values: the argument after
  the distribution parameters is \<open>n\<close>, the last one the index of the draw. The two
  Dirichlet samplers (plain and with the exponential scaling of the experimental mode)
  take the number of objectives, \<open>n\<close>, and the row and column of the entry.
\<close>

record random_source =
  rng_gamma :: "real \<Rightarrow> real \<Rightarrow> nat \<Rightarrow> nat \<Rightarrow> real"
  rng_uniform :: "real \<Rightarrow> real \<Rightarrow> nat \<Rightarrow> nat \<Rightarrow> real"
  rng_beta :: "real \<Rightarrow> real \<Rightarrow> nat \<Rightarrow> nat \<Rightarrow> real"
  gamma_ppf :: "real \<Rightarrow> real \<Rightarrow> real \<Rightarrow> real"
  dirichlet :: "nat \<Rightarrow> nat \<Rightarrow> nat \<Rightarrow> nat \<Rightarrow> real"
  exp_dirichlet :: "nat \<Rightarrow> nat \<Rightarrow> nat \<Rightarrow> nat \<Rightarrow> real"

text \<open>
  \<^verbatim>\<open>SEHTask.__init__\<close> stores its arguments and the loaded models; it checks nothing.
\<close>

definition SEHTask_init ::
  "string \<Rightarrow> temp_params \<Rightarrow> nat \<Rightarrow> int option \<Rightarrow> int option \<Rightarrow> ('m \<Rightarrow> 'g option)
     \<Rightarrow> ('g list \<Rightarrow> fl list) \<Rightarrow> ('m list \<Rightarrow> int list)
     \<Rightarrow> (int list \<Rightarrow> py_error option) option \<Rightarrow> py_error + ('m, 'g) SEHTask" where
  "SEHTask_init temperature_distribution temperature_parameters thermometer_dim
       part_arg total_parts_arg m2g seh km wb =
     Inr \<lparr>part = part_arg, total_parts = total_parts_arg,
          temperature_sample_dist = temperature_distribution,
          temperature_dist_params = temperature_parameters,
          num_thermometer_dim = thermometer_dim,
          mol2graph = m2g, seh_model = seh, kmeans_model = km, wandb_run = wb\<rparr>"

text \<open>
  \<^verbatim>\<open>SEHTask.sample_conditional_information\<close>. The constant family asserts that the
  parameter is a float; the other families unpack a pair (unpacking a float raises
  \<^verbatim>\<open>TypeError\<close>). For a name that matches no branch, \<^verbatim>\<open>beta\<close> is still \<^verbatim>\<open>None\<close> when
  \<^verbatim>\<open>torch.tensor(beta)\<close> is evaluated, which raises \<^verbatim>\<open>RuntimeError\<close>. The samplers
  return 1-D arrays, so the closing assertion on the shape of \<^verbatim>\<open>beta\<close> holds.
\<close>

definition sample_conditional_information ::
  "('m, 'g, 'z) SEHTask_scheme \<Rightarrow> random_source \<Rightarrow> nat \<Rightarrow> py_error + cond_info" where
  "sample_conditional_information t r n =
     (let d = num_thermometer_dim t;
          finish = (\<lambda>b upper_bound.
                      Inr \<lparr>beta = b, beta_lib = Numpy,
                           encoding = thermometer1 b d 0 upper_bound\<rparr>)
      in if temperature_sample_dist t = ''constant'' then
           (case temperature_dist_params t of
              PFloat b \<Rightarrow>
                Inr \<lparr>beta = replicate n b, beta_lib = Numpy, encoding = zeros n d\<rparr>
            | PPair x y \<Rightarrow> Inl AssertionError)
         else if temperature_sample_dist t = ''gamma'' then
           (case temperature_dist_params t of
              PPair loc scale \<Rightarrow>
                finish (map (rng_gamma r loc scale n) [0..<n]) (gamma_ppf r (95 / 100) loc scale)
            | PFloat x \<Rightarrow> Inl TypeError)
         else if temperature_sample_dist t = ''uniform'' then
           (case temperature_dist_params t of
              PPair lo hi \<Rightarrow> finish (map (rng_uniform r lo hi n) [0..<n]) hi
            | PFloat x \<Rightarrow> Inl TypeError)
         else if temperature_sample_dist t = ''loguniform'' then
           (case temperature_dist_params t of
              PPair lo hi \<Rightarrow>
                finish (map (\<lambda>i. exp (rng_uniform r (ln lo) (ln hi) n i)) [0..<n]) hi
            | PFloat x \<Rightarrow> Inl TypeError)
         else if temperature_sample_dist t = ''beta'' then
           (case temperature_dist_params t of
              PPair a b \<Rightarrow> finish (map (rng_beta r a b n) [0..<n]) 1
            | PFloat x \<Rightarrow> Inl TypeError)
         else Inl RuntimeError)"

text \<open>
  \<^verbatim>\<open>SEHMOOTask.sample_conditional_information\<close>. A seeded preference is repeated \<open>n\<close>
  times (for \<open>n = 0\<close> the empty tensor, which \<^verbatim>\<open>torch.cat\<close> joins as no columns).
\<close>

definition moo_sample_conditional_information ::
  "('m, 'g, 'z) SEHMOOTask_scheme \<Rightarrow> random_source \<Rightarrow> nat \<Rightarrow> py_error + cond_info_moo" where
  "moo_sample_conditional_information t r n =
     (case sample_conditional_information t r n of
        Inl e \<Rightarrow> Inl e
      | Inr ci \<Rightarrow>
          let k = length (objectives t);
              prefs =
                (case seeded_preference t of
                   Some sp \<Rightarrow>
                     \<lparr>ncols = (if n = 0 then 0 else length sp), rows = replicate n sp\<rparr>
                 | None \<Rightarrow>
                     if experimental_dirichlet t
                     then \<lparr>ncols = k,
                           rows = map (\<lambda>i. map (exp_dirichlet r k n i) [0..<k]) [0..<n]\<rparr>
                     else \<lparr>ncols = k,
                           rows = map (\<lambda>i. map (dirichlet r k n i) [0..<k]) [0..<n]\<rparr>)
          in (case (if use_pref_thermometer t
                    then reshape_rows (thermometer2 prefs (num_thermometer_dim t) 0 1)
                    else Inr prefs) of
                Inl e \<Rightarrow> Inl e
              | Inr preferences_enc \<Rightarrow>
                  (case cat_dim1 (encoding ci) preferences_enc of
                     Inl e \<Rightarrow> Inl e
                   | Inr enc \<Rightarrow>
                       Inr \<lparr>beta = beta ci, beta_lib = beta_lib ci, encoding = enc,
                            preferences = prefs\<rparr>)))"

text \<open>
  \<^verbatim>\<open>SEHMOOTask.encode_conditional_information\<close>, with \<open>n\<close> the number of rows of the
  preference matrix. Multiplying a tensor by a tuple and indexing a float raise
  \<^verbatim>\<open>TypeError\<close>.
\<close>

definition encode_conditional_information ::
  "('m, 'g, 'z) SEHMOOTask_scheme \<Rightarrow> tensor2 \<Rightarrow> py_error + cond_info_moo" where
  "encode_conditional_information t prefs =
     (let n = nrows prefs; d = num_thermometer_dim t in
      case (if temperature_sample_dist t = ''constant'' then
              (case temperature_dist_params t of
                 PFloat b \<Rightarrow> Inr (replicate n (1 * b), zeros n d)
               | PPair x y \<Rightarrow> Inl TypeError)
            else
              (case temperature_dist_params t of
                 PPair x y \<Rightarrow> Inr (replicate n (1 * y), ones n d)
               | PFloat b \<Rightarrow> Inl TypeError)) of
        Inl e \<Rightarrow> Inl e
      | Inr (b, beta_enc) \<Rightarrow>
          (case (if use_pref_thermometer t
                 then (case reshape_rows (thermometer2 prefs d 0 1) of
                         Inl e \<Rightarrow> Inl e
                       | Inr pe \<Rightarrow> cat_dim1 beta_enc pe)
                 else cat_dim1 beta_enc prefs) of
             Inl e \<Rightarrow> Inl e
           | Inr enc \<Rightarrow>
               Inr \<lparr>beta = b, beta_lib = Torch, encoding = enc, preferences = prefs\<rparr>))"

text \<open>
  The encoding scheme in the words of the specification: thermometer binning over
  \<open>[0, 1]\<close> with \<^verbatim>\<open>num_thermometer_dim\<close> bins when \<^verbatim>\<open>use_pref_thermometer\<close> is set, the
  raw preferences otherwise.
\<close>

definition spec_preference_encoding ::
  "('m, 'g, 'z) SEHMOOTask_scheme \<Rightarrow> tensor2 \<Rightarrow> py_error + tensor2" where
  "spec_preference_encoding t prefs =
     (if use_pref_thermometer t
      then reshape_rows (thermometer2 prefs (num_thermometer_dim t) 0 1)
      else Inr prefs)"

section \<open>The trainer's gradient step\<close>

text \<open>
  Parameters live in a store from addresses to (flattened) tensors; a model is the list
  of the addresses of its parameters, so that two models may share storage. The end of
  \<^verbatim>\<open>SEHFragTrainer.setup\<close>: with \<^verbatim>\<open>sampling_tau > 0\<close> the sampling model is a deep copy
  of the model (fresh addresses, equal contents), otherwise it is the model itself.
\<close>

record trainer =
  store :: "nat \<Rightarrow> real list"
  model :: "nat list"
  sampling_model :: "nat list"
  sampling_tau :: real

definition setup_sampling_model :: "real \<Rightarrow> real list list \<Rightarrow> trainer" where
  "setup_sampling_model tau params =
     (let k = length params in
      if tau > 0
      then \<lparr>store = (\<lambda>a. if a < k then params ! a
                        else if a < 2 * k then params ! (a - k) else []),
            model = [0..<k], sampling_model = [k..<2 * k], sampling_tau = tau\<rparr>
      else \<lparr>store = (\<lambda>a. if a < k then params ! a else []),
            model = [0..<k], sampling_model = [0..<k], sampling_tau = tau\<rparr>)"

text \<open>
  Backpropagation, clipping, the two optimizers and the schedulers are external: after
  them the \<open>i\<close>-th parameter of the model holds \<open>opt i v\<close>, where \<open>v\<close> was its value.
\<close>

fun optimizer_step ::
  "(nat \<Rightarrow> real list \<Rightarrow> real list) \<Rightarrow> nat \<Rightarrow> nat list \<Rightarrow> (nat \<Rightarrow> real list)
     \<Rightarrow> (nat \<Rightarrow> real list)" where
  "optimizer_step opt i [] s = s"
| "optimizer_step opt i (a # as) s = optimizer_step opt (Suc i) as (s(a := opt i (s a)))"

text \<open>
  \<^verbatim>\<open>b.add_(a)\<close> in place on 1-D tensors: \<open>a\<close> must have the size of \<open>b\<close> or size 1.
\<close>

definition add_inplace :: "real list \<Rightarrow> real list \<Rightarrow> py_error + real list" where
  "add_inplace b a =
     (if length a = length b then Inr (map2 (+) b a)
      else if length a = 1 then Inr (map (\<lambda>x. x + hd a) b)
      else Inl RuntimeError)"

text \<open>
  The loop \<^verbatim>\<open>for a, b in zip(...): b.data.mul_(tau).add_(a.data * (1 - tau))\<close>: \<open>b\<close> is
  scaled in place first, then \<open>a\<close> is read and added.
\<close>

fun ema_loop ::
  "real \<Rightarrow> (nat \<times> nat) list \<Rightarrow> (nat \<Rightarrow> real list) \<Rightarrow> py_error + (nat \<Rightarrow> real list)" where
  "ema_loop tau [] s = Inr s"
| "ema_loop tau ((a, b) # ps) s =
     (let s1 = s(b := map (\<lambda>x. x * tau) (s b)) in
      case add_inplace (s1 b) (map (\<lambda>y. y * (1 - tau)) (s1 a)) of
        Inl e \<Rightarrow> Inl e
      | Inr v \<Rightarrow> ema_loop tau ps (s1(b := v)))"

definition step :: "(nat \<Rightarrow> real list \<Rightarrow> real list) \<Rightarrow> trainer \<Rightarrow> py_error + trainer" where
  "step opt t =
     (let s1 = optimizer_step opt 0 (model t) (store t) in
      if sampling_tau t > 0 then
        (case ema_loop (sampling_tau t) (zip (model t) (sampling_model t)) s1 of
           Inl e \<Rightarrow> Inl e
         | Inr s2 \<Rightarrow> Inr (t\<lparr>store := s2\<rparr>))
      else Inr (t\<lparr>store := s1\<rparr>))"

text \<open>The training loop calls \<^verbatim>\<open>step\<close> once per batch; an exception ends the run.\<close>

fun run_steps ::
  "(nat \<Rightarrow> real list \<Rightarrow> real list) list \<Rightarrow> trainer \<Rightarrow> py_error + trainer" where
  "run_steps [] t = Inr t"
| "run_steps (opt # opts) t =
     (case step opt t of Inl e \<Rightarrow> Inl e | Inr t' \<Rightarrow> run_steps opts t')"

text \<open>
  The sampling model is separate from the model: no address is shared or repeated, and
  corresponding parameters have the same size.
\<close>

definition separate :: "trainer \<Rightarrow> bool" where
  "separate t =
     (distinct (model t @ sampling_model t)
      \<and> length (sampling_model t) = length (model t)
      \<and> list_all (\<lambda>(a, b). length (store t b) = length (store t a))
           (zip (model t) (sampling_model t)))"

section \<open>Example inputs\<close>

definition example_task :: "(int, int) SEHTask" where
  "example_task =
     \<lparr>part = Some 0, total_parts = Some 2, temperature_sample_dist = ''constant'',
      temperature_dist_params = PFloat 32, num_thermometer_dim = 2,
      mol2graph = (\<lambda>m. if m < 0 then None else Some m),
      seh_model = map (\<lambda>g. if g = 0 then Fin 8 else Fin 200),
      kmeans_model = map (\<lambda>m. m mod 2),
      wandb_run = None\<rparr>"

definition example_moo_task :: "(int, int) SEHMOOTask" where
  "example_moo_task =
     \<lparr>part = None, total_parts = None, temperature_sample_dist = ''constant'',
      temperature_dist_params = PFloat 32, num_thermometer_dim = 2,
      mol2graph = (\<lambda>m. if m < 0 then None else Some m),
      seh_model = map (\<lambda>g. if g = 0 then Fin 0 else Fin 200),
      kmeans_model = map (\<lambda>m. m mod 2),
      wandb_run = None,
      objectives = [''seh'', ''qed'', ''sa'', ''mw''],
      use_pref_thermometer = True, seeded_preference = Some [1 / 4, 1 / 4, 1 / 4, 1 / 4],
      experimental_dirichlet = False,
      QED_qed = (\<lambda>m. if m = 1 then Inl ValueError else Inr (1 / 2)),
      calculateScore = (\<lambda>m. if m = 1 then Inl RuntimeError else Inr 1),
      MolWt = (\<lambda>m. if m = 1 then Inl ValueError else Inr 300)\<rparr>"

definition example_rng :: random_source where
  "example_rng =
     \<lparr>rng_gamma = (\<lambda>loc scale n i. 1), rng_uniform = (\<lambda>lo hi n i. lo),
      rng_beta = (\<lambda>a b n i. 1 / 2), gamma_ppf = (\<lambda>q loc scale. 2),
      dirichlet = (\<lambda>k n i j. 1 / real k), exp_dirichlet = (\<lambda>k n i j. 1 / real k)\<rparr>"

section \<open>Properties of the launch script\<close>

lemma job_configure_sharded:
  "args_part args = Some p \<Longrightarrow> args_total_parts args = Some t \<Longrightarrow> 1 < t
     \<Longrightarrow> job_configure args = Inl AttributeError"
  by (simp add: job_configure_def dict_call_def Let_def)

lemma job_configure_offline_ratio:
  "job_configure args = Inr h \<Longrightarrow> h ''offline_ratio'' = Some (VFloat 0)"
  by (auto simp: job_configure_def dict_call_def initial_hps_def Let_def
           split: option.splits if_splits)

text \<open>
  Claim C10. Whenever \<^verbatim>\<open>--part\<close> is supplied and \<^verbatim>\<open>--total_parts\<close> is greater than 1,
  the configuration block calls the nonexistent dict method \<^verbatim>\<open>upate\<close>: the script ends
  with \<^verbatim>\<open>AttributeError\<close> before any effect (no directory touched, no trainer
  constructed, no training run), and no configuration the script ever produces carries
  the override of \<^verbatim>\<open>offline_ratio\<close> to 0.25.
\<close>

theorem job_sharded_attribute_error:
  assumes "args_part args = Some p" and "args_total_parts args = Some t" and "1 < t"
  shows "job_configure args = Inl AttributeError
       \<and> job_main ex args = ([], Some AttributeError)
       \<and> (\<forall>args' h. job_configure args' = Inr h
              \<longrightarrow> h ''offline_ratio'' \<noteq> Some (VFloat (1 / 4)))"
proof -
  have c: "job_configure args = Inl AttributeError"
    using assms by (rule job_configure_sharded)
  have m: "job_main ex args = ([], Some AttributeError)"
    by (simp add: job_main_def c)
  have r: "\<forall>args' h. job_configure args' = Inr h
             \<longrightarrow> h ''offline_ratio'' \<noteq> Some (VFloat (1 / 4))"
    using job_configure_offline_ratio by fastforce
  from c m r show ?thesis by blast
qed

theorem job_sharded_attribute_error_witness:
  "job_main True \<lparr>args_log_dir = Some ''logs'', args_data_dir = Some ''data'',
                  args_wandb = None, args_part = Some 0, args_total_parts = Some 4\<rparr>
     = ([], Some AttributeError)"
  using job_sharded_attribute_error
    [of "\<lparr>args_log_dir = Some ''logs'', args_data_dir = Some ''data'',
          args_wandb = None, args_part = Some 0, args_total_parts = Some 4\<rparr>" 0 4 True]
  by simp

section \<open>Reward computation: helper facts\<close>

lemma list_ex_is_graph_None:
  "\<forall>m\<in>set mols. f m = None \<Longrightarrow> \<not> list_ex id (map is_graph (map f mols))"
  by (simp add: list_ex_iff is_graph_def)

lemma is_valid_all_False:
  "\<forall>m\<in>set mols. f m = None \<Longrightarrow> map is_graph (map f mols) = replicate (length mols) False"
  by (induction mols) (simp_all add: is_graph_def)

lemma compute_flat_rewards_invalid:
  assumes "\<not> list_ex id (map is_graph (map (mol2graph t) mols))"
  shows "compute_flat_rewards t mols = Inr (zeros 0 1, map is_graph (map (mol2graph t) mols))"
  using assms unfolding compute_flat_rewards_def Let_def by (simp del: map_map)

lemma moo_compute_flat_rewards_invalid:
  assumes "\<not> list_ex id (map is_graph (map (mol2graph t) mols))"
  shows "moo_compute_flat_rewards t mols
           = Inr (zeros 0 (length (objectives t)), map is_graph (map (mol2graph t) mols))"
  using assms unfolding moo_compute_flat_rewards_def Let_def by (simp del: map_map)

text \<open>
  Claim C5. When no molecule of the input list converts to a graph (the empty list
  included), \<^verbatim>\<open>compute_flat_rewards\<close> returns without raising, in the single-objective
  task a reward tensor with zero rows and one column, in the multi-objective task one
  with zero rows and as many columns as there are objectives, each with a validity mask
  that is \<^verbatim>\<open>False\<close> at every position.
\<close>

theorem compute_flat_rewards_no_valid:
  assumes "\<forall>m\<in>set mols. mol2graph t m = None"
      and "\<forall>m\<in>set mols'. mol2graph t' m = None"
  shows "compute_flat_rewards t mols
           = Inr (\<lparr>ncols = 1, rows = []\<rparr>, replicate (length mols) False)
       \<and> moo_compute_flat_rewards t' mols'
           = Inr (\<lparr>ncols = length (objectives t'), rows = []\<rparr>, replicate (length mols') False)"
proof -
  have "compute_flat_rewards t mols = Inr (zeros 0 1, replicate (length mols) False)"
    using compute_flat_rewards_invalid [OF list_ex_is_graph_None [OF assms(1)]]
    by (simp only: is_valid_all_False [OF assms(1)])
  moreover have "moo_compute_flat_rewards t' mols'
      = Inr (zeros 0 (length (objectives t')), replicate (length mols') False)"
    using moo_compute_flat_rewards_invalid [OF list_ex_is_graph_None [OF assms(2)]]
    by (simp only: is_valid_all_False [OF assms(2)])
  ultimately show ?thesis by (simp add: zeros_def)
qed

lemma valid_graphs_length:
  "length (valid_graphs (map f mols)) = length (valid_mols mols (map is_graph (map f mols)))"
  by (induction mols) (auto simp: valid_graphs_def valid_mols_def List.map_filter_def is_graph_def split: option.splits)

lemma list_ex_valid:
  "list_ex id (map is_graph (map f mols)) \<longleftrightarrow> valid_graphs (map f mols) \<noteq> []"
  by (induction mols) (auto simp: valid_graphs_def List.map_filter_def is_graph_def split: option.splits)

lemma valid_graphs_all:
  "\<forall>m\<in>set mols. f m \<noteq> None \<Longrightarrow> length (valid_graphs (map f mols)) = length mols"
  by (induction mols) (auto simp: valid_graphs_def List.map_filter_def)

lemma compute_flat_rewards_unsharded:
  assumes "list_ex id (map is_graph (map (mol2graph t) mols))" and "part t = None"
  shows "compute_flat_rewards t mols
     = Inr (reshape_col (map (\<lambda>y. clip (1 / 10 ^ 4) 100 (flat_reward_transform y))
              (map nan_to_zero (seh_model t (valid_graphs (map (mol2graph t) mols))))),
            map is_graph (map (mol2graph t) mols))"
  using assms unfolding compute_flat_rewards_def Let_def by (simp del: map_map)

lemma compute_flat_rewards_sharded:
  assumes "list_ex id (map is_graph (map (mol2graph t) mols))" and "part t = Some p"
    and "(case wandb_run t of None \<Rightarrow> None | Some f \<Rightarrow> f (kmeans_model t mols)) = None"
  shows "compute_flat_rewards t mols
     = (case mask_zero (map nan_to_zero (seh_model t (valid_graphs (map (mol2graph t) mols))))
               (map (\<lambda>q. q \<noteq> p) (kmeans_model t mols)) of
          Inl e \<Rightarrow> Inl e
        | Inr ps \<Rightarrow>
            Inr (reshape_col (map (\<lambda>y. clip (1 / 10 ^ 4) 100 (flat_reward_transform y)) ps),
                 map is_graph (map (mol2graph t) mols)))"
  using assms unfolding compute_flat_rewards_def Let_def by (simp del: map_map)

text \<open>
  Claim C1, as amended. In sharded-reward mode, on a batch in which every molecule has a
  graph (the proxy giving one prediction per graph, the classifier one class per
  molecule, the telemetry block not raising), \<^verbatim>\<open>compute_flat_rewards\<close> returns one row
  per molecule: a molecule whose class differs from the assigned partition gets the
  lower clipping bound \<open>1e-4\<close> (its prediction is zeroed before the scaling and the
  clip), and a molecule whose class matches gets the reward of the unsharded computation.
\<close>

theorem sharded_rewards_floor:
  assumes p: "part t = Some p"
    and valid: "\<forall>m\<in>set mols. mol2graph t m \<noteq> None" and ne: "mols \<noteq> []"
    and proxy: "length (seh_model t (valid_graphs (map (mol2graph t) mols))) = length mols"
    and km: "length (kmeans_model t mols) = length mols"
    and tel: "(case wandb_run t of None \<Rightarrow> None | Some f \<Rightarrow> f (kmeans_model t mols)) = None"
  shows "\<exists>fr fr0 v. compute_flat_rewards t mols = Inr (fr, v)
           \<and> compute_flat_rewards (t\<lparr>part := None\<rparr>) mols = Inr (fr0, v)
           \<and> length (rows fr) = length mols
           \<and> (\<forall>i<length mols. rows fr ! i =
                 (if kmeans_model t mols ! i \<noteq> p then [1 / 10 ^ 4] else rows fr0 ! i))"
proof -
  let ?graphs = "map (mol2graph t) mols"
  let ?preds = "map nan_to_zero (seh_model t (valid_graphs ?graphs))"
  let ?msk = "map (\<lambda>q. q \<noteq> p) (kmeans_model t mols)"
  let ?tr = "\<lambda>y. clip (1 / 10 ^ 4) 100 (flat_reward_transform y)"
  let ?ps = "map2 (\<lambda>x m. if m then 0 else x) ?preds ?msk"
  have "valid_graphs ?graphs \<noteq> []"
    using valid_graphs_all [OF valid] ne by fastforce
  then have ex: "list_ex id (map is_graph ?graphs)"
    using list_ex_valid [of "mol2graph t" mols] by blast
  have mz: "mask_zero ?preds ?msk = Inr ?ps"
    using proxy km by (simp add: mask_zero_def)
  have sh: "compute_flat_rewards t mols = Inr (reshape_col (map ?tr ?ps), map is_graph ?graphs)"
    using compute_flat_rewards_sharded [OF ex p tel] by (simp only: mz sum.case)
  have ex0: "list_ex id (map is_graph (map (mol2graph (t\<lparr>part := None\<rparr>)) mols))"
    using ex by simp
  have un: "compute_flat_rewards (t\<lparr>part := None\<rparr>) mols
              = Inr (reshape_col (map ?tr ?preds), map is_graph ?graphs)"
    using compute_flat_rewards_unsharded [OF ex0] by simp
  have len: "length (rows (reshape_col (map ?tr ?ps))) = length mols"
    using proxy km by (simp add: reshape_col_def)
  have ent: "\<forall>i<length mols. rows (reshape_col (map ?tr ?ps)) ! i =
      (if kmeans_model t mols ! i \<noteq> p then [1 / 10 ^ 4]
       else rows (reshape_col (map ?tr ?preds)) ! i)"
    using proxy km by (simp add: reshape_col_def clip_def flat_reward_transform_def)
  from sh un len ent show ?thesis by blast
qed

text \<open>
  In a batch that mixes molecules with and without a graph, the mask has one entry per
  molecule and the predictions one per valid molecule: the masked assignment raises
  \<^verbatim>\<open>IndexError\<close>.
\<close>

lemma sharded_mixed_batch_index_error:
  assumes p: "part t = Some p"
    and tel: "(case wandb_run t of None \<Rightarrow> None | Some f \<Rightarrow> f (kmeans_model t mols)) = None"
    and proxy: "length (seh_model t (valid_graphs (map (mol2graph t) mols)))
                  = length (valid_graphs (map (mol2graph t) mols))"
    and km: "length (kmeans_model t mols) = length mols"
    and some: "valid_graphs (map (mol2graph t) mols) \<noteq> []"
    and less: "length (valid_graphs (map (mol2graph t) mols)) < length mols"
  shows "compute_flat_rewards t mols = Inl IndexError"
proof -
  have ex: "list_ex id (map is_graph (map (mol2graph t) mols))"
    using some list_ex_valid [of "mol2graph t" mols] by blast
  have "mask_zero (map nan_to_zero (seh_model t (valid_graphs (map (mol2graph t) mols))))
          (map (\<lambda>q. q \<noteq> p) (kmeans_model t mols)) = Inl IndexError"
    using proxy km less by (simp add: mask_zero_def)
  then show ?thesis
    using compute_flat_rewards_sharded [OF ex p tel] by simp
qed

lemma sharded_mixed_batch_example:
  "compute_flat_rewards example_task [0, -1] = Inl IndexError"
  by (simp add: compute_flat_rewards_def example_task_def Let_def is_graph_def valid_graphs_def
      List.map_filter_def mask_zero_def)

lemma stack_dim1_ok:
  assumes "cols \<noteq> []" and "\<forall>d\<in>set cols. length d = n"
  shows "stack_dim1 cols
           = Inr \<lparr>ncols = length cols, rows = map (\<lambda>i. map (\<lambda>d. d ! i) cols) [0..<n]\<rparr>"
proof (cases cols)
  case Nil
  with assms show ?thesis by simp
next
  case (Cons c cs)
  with assms have "length c = n" and "list_all (\<lambda>d. length d = length c) cs"
    by (simp_all add: list_all_iff)
  with Cons show ?thesis by (simp add: stack_dim1_def)
qed

lemma valid_ne_list_ex:
  "j < length (valid_graphs (map f mols)) \<Longrightarrow> list_ex id (map is_graph (map f mols))"
  using list_ex_valid [of f mols] by auto

lemma moo_compute_flat_rewards_valid:
  assumes "list_ex id (map is_graph (map (mol2graph t) mols))"
  shows "moo_compute_flat_rewards t mols =
    (case stack_dim1 (flat_reward_columns t mols) of
       Inl e \<Rightarrow> Inl e
     | Inr flat_rewards \<Rightarrow> Inr (flat_rewards, map is_graph (map (mol2graph t) mols)))"
  using assms unfolding moo_compute_flat_rewards_def Let_def by (simp del: map_map)

lemma seh_column_nth:
  "j < length (seh_model t batch) \<Longrightarrow>
   seh_column t batch ! j =
     (case seh_model t batch ! j of Fin x \<Rightarrow> clip (1 / 10 ^ 4) 100 x / 8 | NaN \<Rightarrow> 0)"
  by (cases "seh_model t batch ! j") (simp_all add: seh_column_def)

lemma seh_column_length: "length (seh_column t batch) = length (seh_model t batch)"
  by (simp add: seh_column_def)

lemma columns_length:
  assumes "''seh'' \<in> set (objectives t) \<longrightarrow>
             length (seh_model t (valid_graphs (map (mol2graph t) mols)))
               = length (valid_mols mols (map is_graph (map (mol2graph t) mols)))"
  shows "\<forall>d\<in>set (flat_reward_columns t mols).
           length d = length (valid_mols mols (map is_graph (map (mol2graph t) mols)))"
  using assms unfolding flat_reward_columns_def Let_def
  by (auto simp: seh_column_length simp del: map_map)

lemma columns_nonempty:
  assumes "objectives t \<noteq> []" and "set (objectives t) \<subseteq> {''seh'', ''qed'', ''sa'', ''mw''}"
  shows "flat_reward_columns t mols \<noteq> []"
proof -
  from assms(1) obtain ob where "ob \<in> set (objectives t)"
    by (cases "objectives t") auto
  with assms(2) have "''seh'' \<in> set (objectives t) \<or> ''qed'' \<in> set (objectives t)
      \<or> ''sa'' \<in> set (objectives t) \<or> ''mw'' \<in> set (objectives t)"
    by auto
  then show ?thesis
    unfolding flat_reward_columns_def Let_def by auto
qed

lemma column_seh:
  assumes "''seh'' \<in> set (objectives t)"
  shows "flat_reward_columns t mols ! 0 = seh_column t (valid_graphs (map (mol2graph t) mols))"
  using assms unfolding flat_reward_columns_def Let_def by (simp del: map_map)

lemma column_qed:
  assumes "''qed'' \<in> set (objectives t)"
  shows "flat_reward_columns t mols ! objective_column (objectives t) ''qed''
       = map (\<lambda>i. safe (QED_qed t) i 0)
           (valid_mols mols (map is_graph (map (mol2graph t) mols)))"
  using assms unfolding flat_reward_columns_def Let_def objective_column_def
  by (simp del: map_map)

lemma column_sa:
  assumes "''sa'' \<in> set (objectives t)"
  shows "flat_reward_columns t mols ! objective_column (objectives t) ''sa''
       = map (\<lambda>s. (10 - s) / 9) (map (\<lambda>i. safe (calculateScore t) i 10)
           (valid_mols mols (map is_graph (map (mol2graph t) mols))))"
  using assms unfolding flat_reward_columns_def Let_def objective_column_def
  by (simp del: map_map)

lemma column_mw:
  assumes "''mw'' \<in> set (objectives t)"
  shows "flat_reward_columns t mols ! objective_column (objectives t) ''mw''
       = map (\<lambda>w. clip 0 1 ((300 - w) / 700 + 1)) (map (\<lambda>i. safe (MolWt t) i 1000)
           (valid_mols mols (map is_graph (map (mol2graph t) mols))))"
  using assms unfolding flat_reward_columns_def Let_def objective_column_def
  by (simp del: map_map)

lemma column_index_bound:
  assumes "name \<in> set (objectives t)" and "name \<in> {''qed'', ''sa'', ''mw''}"
  shows "objective_column (objectives t) name < length (flat_reward_columns t mols)"
  using assms unfolding flat_reward_columns_def Let_def objective_column_def
  by auto

lemma moo_rewards_stacked:
  assumes len: "''seh'' \<in> set (objectives t) \<longrightarrow>
             length (seh_model t (valid_graphs (map (mol2graph t) mols)))
               = length (valid_mols mols (map is_graph (map (mol2graph t) mols)))"
    and j: "j < length (valid_mols mols (map is_graph (map (mol2graph t) mols)))"
    and ne: "flat_reward_columns t mols \<noteq> []"
  shows "moo_compute_flat_rewards t mols
     = Inr (\<lparr>ncols = length (flat_reward_columns t mols),
             rows = map (\<lambda>i. map (\<lambda>d. d ! i) (flat_reward_columns t mols))
                      [0..<length (valid_mols mols (map is_graph (map (mol2graph t) mols)))]\<rparr>,
            map is_graph (map (mol2graph t) mols))"
proof -
  have "j < length (valid_graphs (map (mol2graph t) mols))"
    using j by (simp only: valid_graphs_length)
  then have ex: "list_ex id (map is_graph (map (mol2graph t) mols))"
    by (rule valid_ne_list_ex)
  show ?thesis
    by (simp only: moo_compute_flat_rewards_valid [OF ex]
          stack_dim1_ok [OF ne columns_length [OF len]] sum.case)
qed

text \<open>
  Claim C4, as amended. In the multi-objective task the affinity component of a valid
  molecule is the proxy output clipped to \<open>[1e-4, 100]\<close> and then divided by 8 (a NaN
  becomes 0): the clip is applied inside \<^verbatim>\<open>compute_flat_rewards\<close>, before the scaling.
  The single-objective task divides by 8 first and clips to \<open>[1e-4, 100]\<close> afterwards
  (a NaN becomes 0 first, hence \<open>1e-4\<close>).
\<close>

theorem seh_component_clip_order:
  assumes seh: "''seh'' \<in> set (objectives t)"
    and len: "length (seh_model t (valid_graphs (map (mol2graph t) mols)))
                = length (valid_graphs (map (mol2graph t) mols))"
    and j: "j < length (valid_graphs (map (mol2graph t) mols))"
    and s_part: "part s = None"
    and s_valid: "valid_graphs (map (mol2graph s) mols') \<noteq> []"
    and k: "k < length (seh_model s (valid_graphs (map (mol2graph s) mols')))"
  shows "(\<exists>fr v. moo_compute_flat_rewards t mols = Inr (fr, v)
            \<and> rows fr ! j ! 0 =
                (case seh_model t (valid_graphs (map (mol2graph t) mols)) ! j of
                   Fin x \<Rightarrow> clip (1 / 10 ^ 4) 100 x / 8 | NaN \<Rightarrow> 0))
       \<and> (\<exists>fr v. compute_flat_rewards s mols' = Inr (fr, v)
            \<and> rows fr ! k ! 0 =
                (case seh_model s (valid_graphs (map (mol2graph s) mols')) ! k of
                   Fin x \<Rightarrow> clip (1 / 10 ^ 4) 100 (x / 8) | NaN \<Rightarrow> 1 / 10 ^ 4))"
proof
  let ?vm = "valid_mols mols (map is_graph (map (mol2graph t) mols))"
  let ?batch = "valid_graphs (map (mol2graph t) mols)"
  let ?cols = "flat_reward_columns t mols"
  have n: "length ?batch = length ?vm" by (rule valid_graphs_length)
  have len': "''seh'' \<in> set (objectives t) \<longrightarrow> length (seh_model t ?batch) = length ?vm"
    using len n by simp
  have j': "j < length ?vm" using j n by simp
  have ne: "?cols \<noteq> []"
    using seh unfolding flat_reward_columns_def Let_def by simp
  have c0: "?cols ! 0 ! j = (case seh_model t ?batch ! j of
                Fin x \<Rightarrow> clip (1 / 10 ^ 4) 100 x / 8 | NaN \<Rightarrow> 0)"
    using seh_column_nth [of j t ?batch] j len by (simp only: column_seh [OF seh])
  have "map (\<lambda>i. map (\<lambda>d. d ! i) ?cols) [0..<length ?vm] ! j ! 0 = ?cols ! 0 ! j"
    using j' ne by simp
  with c0 moo_rewards_stacked [OF len' j' ne]
  show "\<exists>fr v. moo_compute_flat_rewards t mols = Inr (fr, v)
            \<and> rows fr ! j ! 0 =
                (case seh_model t ?batch ! j of
                   Fin x \<Rightarrow> clip (1 / 10 ^ 4) 100 x / 8 | NaN \<Rightarrow> 0)"
    by simp
next
  let ?out = "seh_model s (valid_graphs (map (mol2graph s) mols'))"
  have ex: "list_ex id (map is_graph (map (mol2graph s) mols'))"
    using s_valid list_ex_valid [of "mol2graph s" mols'] by blast
  have "rows (reshape_col (map (\<lambda>y. clip (1 / 10 ^ 4) 100 (flat_reward_transform y))
              (map nan_to_zero ?out))) ! k ! 0
        = (case ?out ! k of Fin x \<Rightarrow> clip (1 / 10 ^ 4) 100 (x / 8) | NaN \<Rightarrow> 1 / 10 ^ 4)"
    using k by (cases "?out ! k")
      (simp_all add: reshape_col_def flat_reward_transform_def clip_def)
  with compute_flat_rewards_unsharded [OF ex s_part]
  show "\<exists>fr v. compute_flat_rewards s mols' = Inr (fr, v)
            \<and> rows fr ! k ! 0 =
                (case ?out ! k of Fin x \<Rightarrow> clip (1 / 10 ^ 4) 100 (x / 8) | NaN \<Rightarrow> 1 / 10 ^ 4)"
    by simp
qed

lemma safe_raises: "isl (f x) \<Longrightarrow> safe f x d = d"
  by (cases "f x") (simp_all add: safe_def)

lemma columns_count:
  assumes "objectives_ok (objectives t)"
  shows "length (flat_reward_columns t mols) = length (objectives t)"
proof -
  let ?four = "[''seh'', ''qed'', ''sa'', ''mw'']"
  let ?f = "filter (\<lambda>ob. ob \<in> set (objectives t)) ?four"
  from assms have sub: "set (objectives t) \<subseteq> set ?four"
    and c: "length (objectives t) = card (set (objectives t))"
    by (simp_all add: objectives_ok_def)
  have "length (flat_reward_columns t mols) = length ?f"
    unfolding flat_reward_columns_def Let_def by simp
  also have "\<dots> = card (set ?f)"
    by (rule distinct_card [symmetric]) simp
  also have "set ?f = {x \<in> set ?four. x \<in> set (objectives t)}"
    by (rule set_filter)
  also have "\<dots> = set (objectives t)"
    using sub by blast
  finally show ?thesis using c by simp
qed

lemma objective_column_seh: "objective_column objs ''seh'' = 0"
  by (simp add: objective_column_def)

text \<open>
  Claim C6. With a configured, non-empty set of objectives, at least one valid molecule
  (and a proxy that gives one prediction per valid molecule when seh is among the
  objectives), the multi-objective \<^verbatim>\<open>compute_flat_rewards\<close> returns, with the validity
  mask, one row per valid molecule and one column per objective. Each entry is decided
  by its own molecule alone: the descriptor's value where the descriptor returns, and
  where it raises the objective's default (qed 0, reward 0; sa 10, reward 0; mw 1000,
  reward 0), each passed through the objective's transform.
\<close>

theorem descriptor_failure_default:
  assumes ok: "objectives_ok (objectives t)" and ne: "objectives t \<noteq> []"
    and len: "''seh'' \<in> set (objectives t) \<longrightarrow>
               length (seh_model t (valid_graphs (map (mol2graph t) mols)))
                 = length (valid_mols mols (map is_graph (map (mol2graph t) mols)))"
    and some: "valid_mols mols (map is_graph (map (mol2graph t) mols)) \<noteq> []"
  shows "\<exists>fr. moo_compute_flat_rewards t mols
               = Inr (fr, map is_graph (map (mol2graph t) mols))
     \<and> ncols fr = length (objectives t)
     \<and> length (rows fr) = length (valid_mols mols (map is_graph (map (mol2graph t) mols)))
     \<and> (\<forall>j<length (valid_mols mols (map is_graph (map (mol2graph t) mols))).
          length (rows fr ! j) = length (objectives t)
        \<and> (''seh'' \<in> set (objectives t) \<longrightarrow>
              rows fr ! j ! objective_column (objectives t) ''seh''
                = (case seh_model t (valid_graphs (map (mol2graph t) mols)) ! j of
                     Fin x \<Rightarrow> clip (1 / 10 ^ 4) 100 x / 8 | NaN \<Rightarrow> 0))
        \<and> (''qed'' \<in> set (objectives t) \<longrightarrow>
              rows fr ! j ! objective_column (objectives t) ''qed''
                = (case QED_qed t (valid_mols mols (map is_graph (map (mol2graph t) mols)) ! j)
                   of Inl e \<Rightarrow> 0 | Inr y \<Rightarrow> y))
        \<and> (''sa'' \<in> set (objectives t) \<longrightarrow>
              rows fr ! j ! objective_column (objectives t) ''sa''
                = (10 - (case calculateScore t
                                (valid_mols mols (map is_graph (map (mol2graph t) mols)) ! j)
                         of Inl e \<Rightarrow> 10 | Inr s \<Rightarrow> s)) / 9
            \<and> (isl (calculateScore t
                       (valid_mols mols (map is_graph (map (mol2graph t) mols)) ! j))
                 \<longrightarrow> rows fr ! j ! objective_column (objectives t) ''sa'' = 0))
        \<and> (''mw'' \<in> set (objectives t) \<longrightarrow>
              rows fr ! j ! objective_column (objectives t) ''mw''
                = clip 0 1 ((300 - (case MolWt t
                                (valid_mols mols (map is_graph (map (mol2graph t) mols)) ! j)
                         of Inl e \<Rightarrow> 1000 | Inr w \<Rightarrow> w)) / 700 + 1)
            \<and> (isl (MolWt t (valid_mols mols (map is_graph (map (mol2graph t) mols)) ! j))
                 \<longrightarrow> rows fr ! j ! objective_column (objectives t) ''mw'' = 0)))"
proof -
  let ?v = "map is_graph (map (mol2graph t) mols)"
  let ?vm = "valid_mols mols ?v"
  let ?batch = "valid_graphs (map (mol2graph t) mols)"
  let ?cols = "flat_reward_columns t mols"
  let ?rows = "map (\<lambda>i. map (\<lambda>d. d ! i) ?cols) [0..<length ?vm]"
  let ?fr = "\<lparr>ncols = length ?cols, rows = ?rows\<rparr>"
  have sub: "set (objectives t) \<subseteq> {''seh'', ''qed'', ''sa'', ''mw''}"
    using ok by (simp add: objectives_ok_def)
  have cne: "?cols \<noteq> []" by (rule columns_nonempty [OF ne sub])
  have cnt: "length ?cols = length (objectives t)" by (rule columns_count [OF ok])
  from some have z: "0 < length ?vm" by simp
  have res: "moo_compute_flat_rewards t mols = Inr (?fr, ?v)"
    by (rule moo_rewards_stacked [OF len z cne])
  have n: "length ?batch = length ?vm" by (rule valid_graphs_length)
  have ent: "\<forall>j<length ?vm.
          length (?rows ! j) = length (objectives t)
        \<and> (''seh'' \<in> set (objectives t) \<longrightarrow>
              ?rows ! j ! objective_column (objectives t) ''seh''
                = (case seh_model t ?batch ! j of
                     Fin x \<Rightarrow> clip (1 / 10 ^ 4) 100 x / 8 | NaN \<Rightarrow> 0))
        \<and> (''qed'' \<in> set (objectives t) \<longrightarrow>
              ?rows ! j ! objective_column (objectives t) ''qed''
                = (case QED_qed t (?vm ! j) of Inl e \<Rightarrow> 0 | Inr y \<Rightarrow> y))
        \<and> (''sa'' \<in> set (objectives t) \<longrightarrow>
              ?rows ! j ! objective_column (objectives t) ''sa''
                = (10 - (case calculateScore t (?vm ! j) of Inl e \<Rightarrow> 10 | Inr s \<Rightarrow> s)) / 9
            \<and> (isl (calculateScore t (?vm ! j))
                 \<longrightarrow> ?rows ! j ! objective_column (objectives t) ''sa'' = 0))
        \<and> (''mw'' \<in> set (objectives t) \<longrightarrow>
              ?rows ! j ! objective_column (objectives t) ''mw''
                = clip 0 1 ((300 - (case MolWt t (?vm ! j) of Inl e \<Rightarrow> 1000 | Inr w \<Rightarrow> w))
                              / 700 + 1)
            \<and> (isl (MolWt t (?vm ! j))
                 \<longrightarrow> ?rows ! j ! objective_column (objectives t) ''mw'' = 0))"
  proof (intro allI impI)
    fix j assume j: "j < length ?vm"
    have at: "\<And>c. c < length ?cols \<Longrightarrow> ?rows ! j ! c = ?cols ! c ! j"
      using j by simp
    have rl: "length (?rows ! j) = length (objectives t)"
      using j cnt by simp
    have seh: "''seh'' \<in> set (objectives t) \<longrightarrow>
              ?rows ! j ! objective_column (objectives t) ''seh''
                = (case seh_model t ?batch ! j of
                     Fin x \<Rightarrow> clip (1 / 10 ^ 4) 100 x / 8 | NaN \<Rightarrow> 0)"
    proof
      assume m: "''seh'' \<in> set (objectives t)"
      with len j have jm: "j < length (seh_model t ?batch)" by simp
      have "?rows ! j ! 0 = ?cols ! 0 ! j" using cne by (intro at) simp
      also have "\<dots> = seh_column t ?batch ! j" by (simp only: column_seh [OF m])
      also have "\<dots> = (case seh_model t ?batch ! j of
                     Fin x \<Rightarrow> clip (1 / 10 ^ 4) 100 x / 8 | NaN \<Rightarrow> 0)"
        by (rule seh_column_nth [OF jm])
      finally show "?rows ! j ! objective_column (objectives t) ''seh''
                = (case seh_model t ?batch ! j of
                     Fin x \<Rightarrow> clip (1 / 10 ^ 4) 100 x / 8 | NaN \<Rightarrow> 0)"
        by (simp only: objective_column_seh)
    qed
    have qed_entry: "''qed'' \<in> set (objectives t) \<longrightarrow>
              ?rows ! j ! objective_column (objectives t) ''qed''
                = (case QED_qed t (?vm ! j) of Inl e \<Rightarrow> 0 | Inr y \<Rightarrow> y)"
    proof
      assume m: "''qed'' \<in> set (objectives t)"
      have "?rows ! j ! objective_column (objectives t) ''qed''
              = ?cols ! objective_column (objectives t) ''qed'' ! j"
        by (rule at) (rule column_index_bound [OF m], simp)
      also have "\<dots> = safe (QED_qed t) (?vm ! j) 0"
        using j by (simp only: column_qed [OF m] nth_map)
      finally show "?rows ! j ! objective_column (objectives t) ''qed''
                = (case QED_qed t (?vm ! j) of Inl e \<Rightarrow> 0 | Inr y \<Rightarrow> y)"
        by (simp only: safe_def)
    qed
    have sa_entry: "''sa'' \<in> set (objectives t) \<longrightarrow>
              ?rows ! j ! objective_column (objectives t) ''sa''
                = (10 - (case calculateScore t (?vm ! j) of Inl e \<Rightarrow> 10 | Inr s \<Rightarrow> s)) / 9
            \<and> (isl (calculateScore t (?vm ! j))
                 \<longrightarrow> ?rows ! j ! objective_column (objectives t) ''sa'' = 0)"
    proof
      assume m: "''sa'' \<in> set (objectives t)"
      have "?rows ! j ! objective_column (objectives t) ''sa''
              = ?cols ! objective_column (objectives t) ''sa'' ! j"
        by (rule at) (rule column_index_bound [OF m], simp)
      also have "\<dots> = (10 - safe (calculateScore t) (?vm ! j) 10) / 9"
        using j by (simp add: column_sa [OF m] del: map_map)
      finally have e: "?rows ! j ! objective_column (objectives t) ''sa''
                = (10 - (case calculateScore t (?vm ! j) of Inl e \<Rightarrow> 10 | Inr s \<Rightarrow> s)) / 9"
        by (simp only: safe_def)
      moreover have "isl (calculateScore t (?vm ! j))
                 \<longrightarrow> ?rows ! j ! objective_column (objectives t) ''sa'' = 0"
        using e by (cases "calculateScore t (?vm ! j)") simp_all
      ultimately show "?rows ! j ! objective_column (objectives t) ''sa''
                = (10 - (case calculateScore t (?vm ! j) of Inl e \<Rightarrow> 10 | Inr s \<Rightarrow> s)) / 9
            \<and> (isl (calculateScore t (?vm ! j))
                 \<longrightarrow> ?rows ! j ! objective_column (objectives t) ''sa'' = 0)"
        by blast
    qed
    have mw_entry: "''mw'' \<in> set (objectives t) \<longrightarrow>
              ?rows ! j ! objective_column (objectives t) ''mw''
                = clip 0 1 ((300 - (case MolWt t (?vm ! j) of Inl e \<Rightarrow> 1000 | Inr w \<Rightarrow> w))
                              / 700 + 1)
            \<and> (isl (MolWt t (?vm ! j))
                 \<longrightarrow> ?rows ! j ! objective_column (objectives t) ''mw'' = 0)"
    proof
      assume m: "''mw'' \<in> set (objectives t)"
      have "?rows ! j ! objective_column (objectives t) ''mw''
              = ?cols ! objective_column (objectives t) ''mw'' ! j"
        by (rule at) (rule column_index_bound [OF m], simp)
      also have "\<dots> = clip 0 1 ((300 - safe (MolWt t) (?vm ! j) 1000) / 700 + 1)"
        using j by (simp add: column_mw [OF m] del: map_map)
      finally have e: "?rows ! j ! objective_column (objectives t) ''mw''
                = clip 0 1 ((300 - (case MolWt t (?vm ! j) of Inl e \<Rightarrow> 1000 | Inr w \<Rightarrow> w))
                              / 700 + 1)"
        by (simp only: safe_def)
      moreover have "isl (MolWt t (?vm ! j))
                 \<longrightarrow> ?rows ! j ! objective_column (objectives t) ''mw'' = 0"
        using e by (cases "MolWt t (?vm ! j)") (simp_all add: clip_def)
      ultimately show "?rows ! j ! objective_column (objectives t) ''mw''
                = clip 0 1 ((300 - (case MolWt t (?vm ! j) of Inl e \<Rightarrow> 1000 | Inr w \<Rightarrow> w))
                              / 700 + 1)
            \<and> (isl (MolWt t (?vm ! j))
                 \<longrightarrow> ?rows ! j ! objective_column (objectives t) ''mw'' = 0)"
        by blast
    qed
    from rl seh qed_entry sa_entry mw_entry
    show "length (?rows ! j) = length (objectives t)
        \<and> (''seh'' \<in> set (objectives t) \<longrightarrow>
              ?rows ! j ! objective_column (objectives t) ''seh''
                = (case seh_model t ?batch ! j of
                     Fin x \<Rightarrow> clip (1 / 10 ^ 4) 100 x / 8 | NaN \<Rightarrow> 0))
        \<and> (''qed'' \<in> set (objectives t) \<longrightarrow>
              ?rows ! j ! objective_column (objectives t) ''qed''
                = (case QED_qed t (?vm ! j) of Inl e \<Rightarrow> 0 | Inr y \<Rightarrow> y))
        \<and> (''sa'' \<in> set (objectives t) \<longrightarrow>
              ?rows ! j ! objective_column (objectives t) ''sa''
                = (10 - (case calculateScore t (?vm ! j) of Inl e \<Rightarrow> 10 | Inr s \<Rightarrow> s)) / 9
            \<and> (isl (calculateScore t (?vm ! j))
                 \<longrightarrow> ?rows ! j ! objective_column (objectives t) ''sa'' = 0))
        \<and> (''mw'' \<in> set (objectives t) \<longrightarrow>
              ?rows ! j ! objective_column (objectives t) ''mw''
                = clip 0 1 ((300 - (case MolWt t (?vm ! j) of Inl e \<Rightarrow> 1000 | Inr w \<Rightarrow> w))
                              / 700 + 1)
            \<and> (isl (MolWt t (?vm ! j))
                 \<longrightarrow> ?rows ! j ! objective_column (objectives t) ''mw'' = 0))"
      by blast
  qed
  have hd: "ncols ?fr = length (objectives t)" using cnt by simp
  have rw: "rows ?fr = ?rows" by simp
  have l: "length (rows ?fr) = length ?vm" by simp
  show ?thesis
    apply (rule exI [of _ ?fr])
    apply (intro conjI)
       apply (rule res)
      apply (rule hd)
     apply (rule l)
    apply (simp only: rw)
    apply (rule ent)
    done
qed

section \<open>Reward computation: concrete runs\<close>

lemmas example_defs = example_task_def example_moo_task_def is_graph_def valid_graphs_def
  valid_mols_def List.map_filter_def

theorem compute_flat_rewards_no_valid_witness:
  "compute_flat_rewards example_task [-1, -2] = Inr (\<lparr>ncols = 1, rows = []\<rparr>, [False, False])
   \<and> moo_compute_flat_rewards example_moo_task [-3] = Inr (\<lparr>ncols = 4, rows = []\<rparr>, [False])"
  using compute_flat_rewards_no_valid [of "[-1, -2]" example_task "[-3]" example_moo_task]
  by (simp add: example_task_def example_moo_task_def)

theorem sharded_rewards_zero_counterexample:
  "part example_task = Some 0
   \<and> kmeans_model example_task [0, 1] = [0, 1]
   \<and> compute_flat_rewards example_task [0, 1]
        = Inr (\<lparr>ncols = 1, rows = [[1], [1 / 10000]]\<rparr>, [True, True])
   \<and> (1 / 10000 :: real) \<noteq> 0"
  by (simp add: compute_flat_rewards_def example_task_def Let_def is_graph_def valid_graphs_def
      List.map_filter_def mask_zero_def reshape_col_def clip_def flat_reward_transform_def)

theorem sharded_rewards_floor_witness:
  "\<exists>fr fr0 v. compute_flat_rewards example_task [0, 1] = Inr (fr, v)
      \<and> compute_flat_rewards (example_task\<lparr>part := None\<rparr>) [0, 1] = Inr (fr0, v)
      \<and> length (rows fr) = 2
      \<and> rows fr ! 0 = rows fr0 ! 0 \<and> rows fr ! 1 = [1 / 10 ^ 4]"
proof -
  have a: "part example_task = Some 0" by (simp add: example_task_def)
  have b: "\<forall>m\<in>set [0, 1]. mol2graph example_task m \<noteq> None" by (simp add: example_task_def)
  have c: "[0, 1 :: int] \<noteq> []" by simp
  have d: "length (seh_model example_task (valid_graphs (map (mol2graph example_task) [0, 1])))
             = length [0, 1 :: int]"
    by (simp add: example_defs)
  have e: "length (kmeans_model example_task [0, 1]) = length [0, 1 :: int]"
    by (simp add: example_task_def)
  have f: "(case wandb_run example_task of None \<Rightarrow> None
            | Some f \<Rightarrow> f (kmeans_model example_task [0, 1])) = None"
    by (simp add: example_task_def)
  have g: "kmeans_model example_task [0, 1] = [0, 1]" by (simp add: example_task_def)
  from sharded_rewards_floor [OF a b c d e f] obtain fr fr0 v where
    r: "compute_flat_rewards example_task [0, 1] = Inr (fr, v)"
       "compute_flat_rewards (example_task\<lparr>part := None\<rparr>) [0, 1] = Inr (fr0, v)"
       "length (rows fr) = length [0, 1 :: int]"
       "\<forall>i<length [0, 1 :: int]. rows fr ! i =
          (if kmeans_model example_task [0, 1] ! i \<noteq> 0 then [1 / 10 ^ 4] else rows fr0 ! i)"
    by blast
  from r(4) g have "rows fr ! 0 = rows fr0 ! 0" "rows fr ! 1 = [1 / 10 ^ 4]"
    by simp_all
  with r(1,2,3) show ?thesis by simp
qed

theorem moo_seh_unclipped_counterexample:
  "seh_model example_moo_task [0, 1] = [Fin 0, Fin 200]
   \<and> moo_compute_flat_rewards example_moo_task [0, 1, -1]
       = Inr (\<lparr>ncols = 4, rows = [[1 / 80000, 1 / 2, 1, 1], [25 / 2, 0, 0, 0]]\<rparr>,
              [True, True, False])
   \<and> (1 / 80000 :: real) \<noteq> 0 / 8 \<and> (25 / 2 :: real) \<noteq> 200 / 8"
  by (simp add: moo_compute_flat_rewards_def example_moo_task_def Let_def is_graph_def
      valid_graphs_def valid_mols_def seh_column_def safe_def stack_dim1_def
      flat_reward_columns_def List.map_filter_def clip_def)

theorem seh_component_clip_order_witness:
  "(\<exists>fr v. moo_compute_flat_rewards example_moo_task [0, 1, -1] = Inr (fr, v)
       \<and> rows fr ! 1 ! 0 = 100 / 8)
   \<and> (\<exists>fr v. compute_flat_rewards (example_task\<lparr>part := None\<rparr>) [0, 1] = Inr (fr, v)
       \<and> rows fr ! 1 ! 0 = 200 / 8)"
proof -
  have a: "''seh'' \<in> set (objectives example_moo_task)" by (simp add: example_moo_task_def)
  have b: "length (seh_model example_moo_task
             (valid_graphs (map (mol2graph example_moo_task) [0, 1, -1])))
           = length (valid_graphs (map (mol2graph example_moo_task) [0, 1, -1]))"
    by (simp add: example_defs)
  have c: "1 < length (valid_graphs (map (mol2graph example_moo_task) [0, 1, -1]))"
    by (simp add: example_defs)
  have d: "part (example_task\<lparr>part := None\<rparr>) = None" by simp
  have e: "valid_graphs (map (mol2graph (example_task\<lparr>part := None\<rparr>)) [0, 1]) \<noteq> []"
    by (simp add: example_defs)
  have f: "1 < length (seh_model (example_task\<lparr>part := None\<rparr>)
             (valid_graphs (map (mol2graph (example_task\<lparr>part := None\<rparr>)) [0, 1])))"
    by (simp add: example_defs)
  have g: "seh_model example_moo_task
             (valid_graphs (map (mol2graph example_moo_task) [0, 1, -1])) ! 1 = Fin 200"
    by (simp add: example_defs)
  have h: "seh_model (example_task\<lparr>part := None\<rparr>)
             (valid_graphs (map (mol2graph (example_task\<lparr>part := None\<rparr>)) [0, 1])) ! 1 = Fin 200"
    by (simp add: example_defs)
  show ?thesis
    using seh_component_clip_order [OF a b c d e f]
    by (simp only: g h fl.case) (simp add: clip_def)
qed

theorem descriptor_failure_default_witness:
  "\<exists>fr. moo_compute_flat_rewards example_moo_task [0, 1, -1] = Inr (fr, [True, True, False])
      \<and> ncols fr = 4 \<and> length (rows fr) = 2
      \<and> rows fr ! 0 ! 0 = 1 / 80000 \<and> rows fr ! 0 ! 1 = 1 / 2
      \<and> rows fr ! 0 ! 2 = 1 \<and> rows fr ! 0 ! 3 = 1
      \<and> rows fr ! 1 ! 0 = 25 / 2 \<and> rows fr ! 1 ! 1 = 0
      \<and> rows fr ! 1 ! 2 = 0 \<and> rows fr ! 1 ! 3 = 0"
proof -
  have vm: "valid_mols [0, 1, -1] (map is_graph (map (mol2graph example_moo_task) [0, 1, -1]))
              = [0, 1]"
    by (simp add: example_defs)
  have v: "map is_graph (map (mol2graph example_moo_task) [0, 1, -1]) = [True, True, False]"
    by (simp add: example_defs)
  have vm': "valid_mols [0, 1, -1 :: int] [True, True, False] = [0, 1]"
    by (simp add: valid_mols_def)
  have out: "seh_model example_moo_task
               (valid_graphs (map (mol2graph example_moo_task) [0, 1, -1])) = [Fin 0, Fin 200]"
    by (simp add: example_defs)
  have a: "objectives_ok (objectives example_moo_task)"
    by (simp add: example_moo_task_def objectives_ok_def)
  have b: "objectives example_moo_task \<noteq> []" by (simp add: example_moo_task_def)
  have c: "''seh'' \<in> set (objectives example_moo_task) \<longrightarrow>
      length (seh_model example_moo_task
                (valid_graphs (map (mol2graph example_moo_task) [0, 1, -1])))
      = length (valid_mols [0, 1, -1]
                  (map is_graph (map (mol2graph example_moo_task) [0, 1, -1])))"
    by (simp only: vm out) simp
  have d: "valid_mols [0, 1, -1]
             (map is_graph (map (mol2graph example_moo_task) [0, 1, -1])) \<noteq> []"
    by (simp only: vm) simp
  have e: "''seh'' \<in> set (objectives example_moo_task)"
     "''qed'' \<in> set (objectives example_moo_task)"
     "''sa'' \<in> set (objectives example_moo_task)" "''mw'' \<in> set (objectives example_moo_task)"
     "length (objectives example_moo_task) = 4"
     "objective_column (objectives example_moo_task) ''seh'' = 0"
     "objective_column (objectives example_moo_task) ''qed'' = 1"
     "objective_column (objectives example_moo_task) ''sa'' = 2"
     "objective_column (objectives example_moo_task) ''mw'' = 3"
    by (simp_all add: example_moo_task_def objective_column_def)
  have f: "QED_qed example_moo_task 0 = Inr (1 / 2)" "QED_qed example_moo_task 1 = Inl ValueError"
    "calculateScore example_moo_task 0 = Inr 1"
    "calculateScore example_moo_task 1 = Inl RuntimeError"
    "MolWt example_moo_task 0 = Inr 300" "MolWt example_moo_task 1 = Inl ValueError"
    by (simp_all add: example_moo_task_def)
  from descriptor_failure_default [OF a b c d] obtain fr where
    r: "moo_compute_flat_rewards example_moo_task [0, 1, -1] = Inr (fr, [True, True, False])"
    and h: "ncols fr = 4" "length (rows fr) = 2"
    and en: "\<forall>j<2.
        rows fr ! j ! 0 = (case [Fin 0, Fin 200] ! j of
                             Fin x \<Rightarrow> clip (1 / 10 ^ 4) 100 x / 8 | NaN \<Rightarrow> 0)
      \<and> rows fr ! j ! 1 = (case QED_qed example_moo_task ([0, 1] ! j) of
                             Inl e \<Rightarrow> 0 | Inr y \<Rightarrow> y)
      \<and> rows fr ! j ! 2 = (10 - (case calculateScore example_moo_task ([0, 1] ! j) of
                                   Inl e \<Rightarrow> 10 | Inr s \<Rightarrow> s)) / 9
      \<and> rows fr ! j ! 3 = clip 0 1 ((300 - (case MolWt example_moo_task ([0, 1] ! j) of
                                   Inl e \<Rightarrow> 1000 | Inr w \<Rightarrow> w)) / 700 + 1)"
    by (simp only: v vm' out e) auto
  from en [rule_format, of 0] have "rows fr ! 0 ! 0 = 1 / 80000 \<and> rows fr ! 0 ! 1 = 1 / 2
      \<and> rows fr ! 0 ! 2 = 1 \<and> rows fr ! 0 ! 3 = 1"
    by (simp add: f clip_def)
  moreover from en [rule_format, of 1] have "rows fr ! 1 ! 0 = 25 / 2 \<and> rows fr ! 1 ! 1 = 0
      \<and> rows fr ! 1 ! 2 = 0 \<and> rows fr ! 1 ! 3 = 0"
    by (simp add: f clip_def)
  ultimately show ?thesis using r h by blast
qed

section \<open>Scalarization\<close>

lemma bidx_id: "i < n \<Longrightarrow> bidx n i = i"
  by (auto simp: bidx_def)

lemma bdim_same: "bdim n n = Some n"
  by (simp add: bdim_def)

lemma mul1_same_length:
  assumes "length a = length b"
  shows "mul1 lib a b = Inr (map (\<lambda>i. a ! i * b ! i) [0..<length b])"
  using assms by (simp add: mul1_def bdim_same bidx_id)



lemma concat_singletons:
  "list_all (\<lambda>r. length r = 1) rs \<Longrightarrow> concat rs = map (\<lambda>r. r ! 0) rs"
proof (induction rs)
  case Nil
  then show ?case by simp
next
  case (Cons r rs)
  then obtain x where "r = [x]" by (cases r) auto
  with Cons show ?case by simp
qed

lemma squeeze_column:
  assumes "wf_tensor2 fr" and "ncols fr = 1" and "nrows fr \<noteq> 1"
  shows "squeeze fr = ([nrows fr], map (\<lambda>r. r ! 0) (rows fr))"
  using assms by (simp add: squeeze_def wf_tensor2_def concat_singletons)

lemma mul2_same_shape:
  assumes "nrows a = nrows b" and "ncols a = ncols b"
  shows "mul2 a b = Inr \<lparr>ncols = ncols b,
           rows = map (\<lambda>i. map (\<lambda>j. rows a ! i ! j * rows b ! i ! j) [0..<ncols b])
                    [0..<nrows b]\<rparr>"
  using assms by (simp add: mul2_def bdim_same bidx_id)

lemma single_logreward:
  assumes wf: "wf_tensor2 fr" and c1: "ncols fr = 1" and n: "nrows fr = length (beta ci)"
    and n1: "nrows fr \<noteq> 1"
  shows "cond_info_to_logreward ci fr
           = Inr (map (\<lambda>i. ln (max (rows fr ! i ! 0) (1 / 10 ^ 30)) * beta ci ! i)
                    [0..<nrows fr])"
proof -
  let ?sl = "map (\<lambda>x. ln (max x (1 / 10 ^ 30))) (map (\<lambda>r. r ! 0) (rows fr))"
  have l: "length ?sl = length (beta ci)" using n by (simp add: nrows_def)
  have "cond_info_to_logreward ci fr = mul1 (beta_lib ci) ?sl (beta ci)"
    by (simp add: cond_info_to_logreward_def squeeze_column [OF wf c1 n1])
  also have "\<dots> = Inr (map (\<lambda>i. ?sl ! i * beta ci ! i) [0..<length (beta ci)])"
    by (rule mul1_same_length [OF l])
  also have "map (\<lambda>i. ?sl ! i * beta ci ! i) [0..<length (beta ci)]
       = map (\<lambda>i. ln (max (rows fr ! i ! 0) (1 / 10 ^ 30)) * beta ci ! i) [0..<nrows fr]"
    using n by (simp add: nrows_def)
  finally show ?thesis .
qed

lemma moo_logreward:
  assumes c: "ncols fr = ncols (preferences cm)" and r: "nrows fr = nrows (preferences cm)"
    and n: "nrows fr = length (beta cm)"
  shows "moo_cond_info_to_logreward cm fr
           = Inr (map (\<lambda>i. ln (max (sum_list (map (\<lambda>j. rows fr ! i ! j
                                   * rows (preferences cm) ! i ! j) [0..<ncols fr]))
                          (1 / 10 ^ 30)) * beta cm ! i) [0..<nrows fr])"
proof -
  let ?w = "\<lambda>i. sum_list (map (\<lambda>j. rows fr ! i ! j * rows (preferences cm) ! i ! j)
                [0..<ncols fr])"
  let ?sl = "map (\<lambda>x. ln (max x (1 / 10 ^ 30))) (map ?w [0..<nrows fr])"
  have l: "length ?sl = length (beta cm)" using n by simp
  have "moo_cond_info_to_logreward cm fr = mul1 (beta_lib cm) ?sl (beta cm)"
    using c r n
    by (simp add: moo_cond_info_to_logreward_def mul2_same_shape [OF r c] sum_dim1_def
          comp_def)
  also have "\<dots> = Inr (map (\<lambda>i. ?sl ! i * beta cm ! i) [0..<length (beta cm)])"
    by (rule mul1_same_length [OF l])
  also have "map (\<lambda>i. ?sl ! i * beta cm ! i) [0..<length (beta cm)]
       = map (\<lambda>i. ln (max (?w i) (1 / 10 ^ 30)) * beta cm ! i) [0..<nrows fr]"
    using n by simp
  finally show ?thesis .
qed

text \<open>
  Claim C2. At batch size 1 the single-objective \<^verbatim>\<open>cond_info_to_logreward\<close> does not
  return \<open>log(clamp(reward, min=eps)) * beta\<close>: \<^verbatim>\<open>squeeze()\<close> removes the batch dimension
  of the \<open>(1, 1)\<close> reward and the assertion on the numbers of dimensions fails. The
  multi-objective function returns the value at batch size 1, and the single-objective
  one at batch size 2.
\<close>

theorem logreward_batch_of_one_raises:
  "cond_info_to_logreward \<lparr>beta = [32], beta_lib = Numpy, encoding = zeros 1 2\<rparr>
       \<lparr>ncols = 1, rows = [[1 / 2]]\<rparr> = Inl AssertionError
   \<and> moo_cond_info_to_logreward
       \<lparr>beta = [32], beta_lib = Numpy, encoding = zeros 1 2,
        preferences = \<lparr>ncols = 1, rows = [[1]]\<rparr>\<rparr>
       \<lparr>ncols = 1, rows = [[1 / 2]]\<rparr> = Inr [ln (max (1 / 2) (1 / 10 ^ 30)) * 32]
   \<and> cond_info_to_logreward \<lparr>beta = [32, 16], beta_lib = Numpy, encoding = zeros 2 2\<rparr>
       \<lparr>ncols = 1, rows = [[1 / 2], [1 / 4]]\<rparr>
       = Inr [ln (max (1 / 2) (1 / 10 ^ 30)) * 32, ln (max (1 / 4) (1 / 10 ^ 30)) * 16]"
  by (simp add: cond_info_to_logreward_def moo_cond_info_to_logreward_def squeeze_def
        nrows_def mul1_def mul2_def bdim_def bidx_def sum_dim1_def upt_rec)







section \<open>Conditioning sampler: properties\<close>

lemma sample_unsupported:
  assumes "d \<notin> {''constant'', ''gamma'', ''uniform'', ''loguniform'', ''beta''}"
    and "temperature_sample_dist t = d"
  shows "sample_conditional_information t r n = Inl RuntimeError"
  using assms by (simp add: sample_conditional_information_def Let_def)

text \<open>
  Claim C7, as amended. When \<^verbatim>\<open>temperature_sample_dist\<close> names a family outside constant,
  gamma, uniform, loguniform and beta, constructing the task succeeds (nothing checks the
  name at setup), and every call of \<^verbatim>\<open>sample_conditional_information\<close> raises
  \<^verbatim>\<open>RuntimeError\<close>, from the conversion of the unset \<^verbatim>\<open>beta\<close> to a tensor: the failure
  comes at the first sampling of conditioning information and is not a configuration
  error.
\<close>

theorem unsupported_family_fails_at_sampling:
  assumes "d \<notin> {''constant'', ''gamma'', ''uniform'', ''loguniform'', ''beta''}"
  shows "\<exists>t. SEHTask_init d ps nd p tp m2g seh km wb = Inr t
            \<and> temperature_sample_dist t = d
            \<and> (\<forall>r n. sample_conditional_information t r n = Inl RuntimeError)"
  using assms by (simp add: SEHTask_init_def sample_unsupported)

theorem unsupported_family_setup_counterexample:
  "\<not> isl (SEHTask_init ''cauchy'' (PPair 0 1) 2 None None
             (\<lambda>m :: int. Some m) (map (\<lambda>g :: int. Fin 1)) (map (\<lambda>m. 0)) None)"
  by (simp add: SEHTask_init_def)

theorem unsupported_family_fails_at_sampling_witness:
  "\<exists>t. SEHTask_init ''cauchy'' (PPair 0 1) 2 None None
          (\<lambda>m :: int. Some m) (map (\<lambda>g :: int. Fin 1)) (map (\<lambda>m. 0)) None = Inr t
      \<and> sample_conditional_information t example_rng 8 = Inl RuntimeError"
  using unsupported_family_fails_at_sampling
    [of "''cauchy''" "PPair 0 1" 2 None None "\<lambda>m :: int. Some m" "map (\<lambda>g :: int. Fin 1)"
        "map (\<lambda>m. 0)" None]
  by auto

lemma sample_ncols:
  "sample_conditional_information t r n = Inr ci0
     \<Longrightarrow> ncols (encoding ci0) = num_thermometer_dim t"
  by (auto simp: sample_conditional_information_def Let_def zeros_def thermometer1_def
           split: if_splits temp_params.splits)

lemma sample_nrows:
  "sample_conditional_information t r n = Inr ci0 \<Longrightarrow> nrows (encoding ci0) = n"
  by (auto simp: sample_conditional_information_def Let_def zeros_def thermometer1_def nrows_def
           split: if_splits temp_params.splits)

lemma sample_row_length:
  "sample_conditional_information t r n = Inr ci0 \<Longrightarrow> i < n
     \<Longrightarrow> length (rows (encoding ci0) ! i) = num_thermometer_dim t"
  by (auto simp: sample_conditional_information_def Let_def zeros_def thermometer1_def
                 thermometer_def
           split: if_splits temp_params.splits)

lemma sample_params:
  "sample_conditional_information t r n = Inr ci0 \<Longrightarrow>
     (if temperature_sample_dist t = ''constant''
      then \<exists>b. temperature_dist_params t = PFloat b
      else \<exists>x y. temperature_dist_params t = PPair x y)"
  by (auto simp: sample_conditional_information_def Let_def
           split: if_splits temp_params.splits)

lemma spec_pref_nrows: "spec_preference_encoding t P = Inr pe \<Longrightarrow> nrows pe = nrows P"
  by (auto simp: spec_preference_encoding_def reshape_rows_def thermometer2_def nrows_def
           split: if_splits)

lemma cat_dim1_row:
  assumes "cat_dim1 a b = Inr c" and "i < nrows a"
  shows "rows c ! i = rows a ! i @ rows b ! i"
  using assms by (auto simp: cat_dim1_def nrows_def split: if_splits)

lemma moo_sample_unfold:
  assumes "moo_sample_conditional_information t r n = Inr ci"
  shows "\<exists>ci0 pe. sample_conditional_information t r n = Inr ci0
           \<and> beta ci = beta ci0 \<and> beta_lib ci = beta_lib ci0
           \<and> nrows (preferences ci) = n
           \<and> spec_preference_encoding t (preferences ci) = Inr pe
           \<and> cat_dim1 (encoding ci0) pe = Inr (encoding ci)"
  using assms
  by (auto simp: moo_sample_conditional_information_def spec_preference_encoding_def Let_def
                 nrows_def
           split: sum.splits if_splits option.splits)

lemma encode_result:
  assumes "encode_conditional_information t P = Inr ce"
  shows "\<exists>pe. spec_preference_encoding t P = Inr pe
           \<and> cat_dim1 (if temperature_sample_dist t = ''constant''
                        then zeros (nrows P) (num_thermometer_dim t)
                        else ones (nrows P) (num_thermometer_dim t)) pe = Inr (encoding ce)
           \<and> beta ce = replicate (nrows P)
                          (case temperature_dist_params t of PFloat b \<Rightarrow> b | PPair x y \<Rightarrow> y)
           \<and> beta_lib ce = Torch
           \<and> preferences ce = P"
  using assms
  by (auto simp: encode_conditional_information_def spec_preference_encoding_def Let_def
           split: sum.splits if_splits temp_params.splits)

lemma encode_returns:
  assumes p: "if temperature_sample_dist t = ''constant''
              then \<exists>b. temperature_dist_params t = PFloat b
              else \<exists>x y. temperature_dist_params t = PPair x y"
    and s: "spec_preference_encoding t P = Inr pe"
  shows "\<exists>ce. encode_conditional_information t P = Inr ce"
proof -
  have n: "nrows pe = nrows P" by (rule spec_pref_nrows [OF s])
  show ?thesis
  proof (cases "temperature_sample_dist t = ''constant''")
    case True
    with p obtain b where b: "temperature_dist_params t = PFloat b" by auto
    obtain enc where e: "cat_dim1 (zeros (nrows P) (num_thermometer_dim t)) pe = Inr enc"
      using n by (simp add: cat_dim1_def zeros_def nrows_def)
    show ?thesis
      using True b s e
      by (auto simp: encode_conditional_information_def spec_preference_encoding_def Let_def
               split: if_splits)
  next
    case False
    with p obtain x y where b: "temperature_dist_params t = PPair x y" by auto
    obtain enc where e: "cat_dim1 (ones (nrows P) (num_thermometer_dim t)) pe = Inr enc"
      using n by (simp add: cat_dim1_def ones_def nrows_def)
    show ?thesis
      using False b s e
      by (auto simp: encode_conditional_information_def spec_preference_encoding_def Let_def
               split: if_splits)
  qed
qed

lemma beta_block_row:
  assumes "i < n"
  shows "rows (if c then zeros n d else ones n d) ! i = replicate d (if c then 0 else 1)"
    and "nrows (if c then zeros n d else ones n d) = n"
  using assms by (simp_all add: zeros_def ones_def nrows_def)

text \<open>
  Claim C8. For every preference matrix on which \<^verbatim>\<open>encode_conditional_information\<close>
  returns, each row of its encoding is the \<^verbatim>\<open>beta\<close> encoding (\<^verbatim>\<open>num_thermometer_dim\<close>
  zeros for the constant family, ones otherwise) followed by that row of the preferences
  encoded by the specified scheme (thermometer binning over \<open>[0, 1]\<close> when
  \<^verbatim>\<open>use_pref_thermometer\<close> is set, raw otherwise). Whenever
  \<^verbatim>\<open>sample_conditional_information\<close> returns, each row of its encoding is the sampled
  \<^verbatim>\<open>beta\<close> encoding of the single-objective sampler followed by that row of the sampled
  preferences encoded by the same scheme, and \<^verbatim>\<open>encode_conditional_information\<close> on the
  sampled preferences returns and reproduces that preference block after its own
  \<^verbatim>\<open>beta\<close> block.
\<close>

theorem encode_reproduces_sampling_scheme:
  "(\<forall>P ce. encode_conditional_information t P = Inr ce \<longrightarrow>
       (\<exists>pe. spec_preference_encoding t P = Inr pe
          \<and> cat_dim1 (if temperature_sample_dist t = ''constant''
                       then zeros (nrows P) (num_thermometer_dim t)
                       else ones (nrows P) (num_thermometer_dim t)) pe = Inr (encoding ce)
          \<and> (\<forall>i<nrows P.
                rows (encoding ce) ! i
                  = replicate (num_thermometer_dim t)
                      (if temperature_sample_dist t = ''constant'' then 0 else 1)
                    @ rows pe ! i)
          \<and> beta ce = replicate (nrows P)
                         (case temperature_dist_params t of PFloat b \<Rightarrow> b | PPair x y \<Rightarrow> y)
          \<and> preferences ce = P))
   \<and> (\<forall>r n ci. moo_sample_conditional_information t r n = Inr ci \<longrightarrow>
       (\<exists>ci0 pe ce. sample_conditional_information t r n = Inr ci0
          \<and> beta ci = beta ci0
          \<and> nrows (preferences ci) = n
          \<and> spec_preference_encoding t (preferences ci) = Inr pe
          \<and> cat_dim1 (encoding ci0) pe = Inr (encoding ci)
          \<and> (\<forall>i<n. length (rows (encoding ci0) ! i) = num_thermometer_dim t
                  \<and> rows (encoding ci) ! i = rows (encoding ci0) ! i @ rows pe ! i)
          \<and> encode_conditional_information t (preferences ci) = Inr ce
          \<and> (\<forall>i<n. rows (encoding ce) ! i
                       = replicate (num_thermometer_dim t)
                           (if temperature_sample_dist t = ''constant'' then 0 else 1)
                         @ rows pe ! i)
          \<and> preferences ce = preferences ci))"
proof (intro conjI allI impI)
  fix P ce
  assume a: "encode_conditional_information t P = Inr ce"
  let ?be = "if temperature_sample_dist t = ''constant''
             then zeros (nrows P) (num_thermometer_dim t)
             else ones (nrows P) (num_thermometer_dim t)"
  from encode_result [OF a] obtain pe where
    pe: "spec_preference_encoding t P = Inr pe"
    and c: "cat_dim1 ?be pe = Inr (encoding ce)"
    and b: "beta ce = replicate (nrows P)
                         (case temperature_dist_params t of PFloat b \<Rightarrow> b | PPair x y \<Rightarrow> y)"
    and p: "preferences ce = P"
    by blast
  have r: "\<forall>i<nrows P. rows (encoding ce) ! i
             = replicate (num_thermometer_dim t)
                 (if temperature_sample_dist t = ''constant'' then 0 else 1) @ rows pe ! i"
  proof (intro allI impI)
    fix i assume i: "i < nrows P"
    then have "i < nrows ?be" by (simp only: beta_block_row(2))
    from cat_dim1_row [OF c this] show "rows (encoding ce) ! i
             = replicate (num_thermometer_dim t)
                 (if temperature_sample_dist t = ''constant'' then 0 else 1) @ rows pe ! i"
      by (simp only: beta_block_row(1) [OF i])
  qed
  from pe c r b p show "\<exists>pe. spec_preference_encoding t P = Inr pe
          \<and> cat_dim1 ?be pe = Inr (encoding ce)
          \<and> (\<forall>i<nrows P.
                rows (encoding ce) ! i
                  = replicate (num_thermometer_dim t)
                      (if temperature_sample_dist t = ''constant'' then 0 else 1)
                    @ rows pe ! i)
          \<and> beta ce = replicate (nrows P)
                         (case temperature_dist_params t of PFloat b \<Rightarrow> b | PPair x y \<Rightarrow> y)
          \<and> preferences ce = P"
    by blast
next
  fix r n ci
  assume a: "moo_sample_conditional_information t r n = Inr ci"
  from moo_sample_unfold [OF a] obtain ci0 pe where
    s0: "sample_conditional_information t r n = Inr ci0"
    and b: "beta ci = beta ci0"
    and np: "nrows (preferences ci) = n"
    and pe: "spec_preference_encoding t (preferences ci) = Inr pe"
    and cs: "cat_dim1 (encoding ci0) pe = Inr (encoding ci)"
    by blast
  have rs: "\<forall>i<n. length (rows (encoding ci0) ! i) = num_thermometer_dim t
                  \<and> rows (encoding ci) ! i = rows (encoding ci0) ! i @ rows pe ! i"
  proof (intro allI impI)
    fix i assume i: "i < n"
    then have "i < nrows (encoding ci0)" by (simp only: sample_nrows [OF s0])
    from cat_dim1_row [OF cs this] sample_row_length [OF s0 i]
    show "length (rows (encoding ci0) ! i) = num_thermometer_dim t
                  \<and> rows (encoding ci) ! i = rows (encoding ci0) ! i @ rows pe ! i"
      by simp
  qed
  from encode_returns [OF sample_params [OF s0] pe] obtain ce where
    e: "encode_conditional_information t (preferences ci) = Inr ce"
    by blast
  from encode_result [OF e] pe obtain
    ce_c: "cat_dim1 (if temperature_sample_dist t = ''constant''
                     then zeros (nrows (preferences ci)) (num_thermometer_dim t)
                     else ones (nrows (preferences ci)) (num_thermometer_dim t)) pe
             = Inr (encoding ce)"
    and ce_p: "preferences ce = preferences ci"
    by auto
  have re: "\<forall>i<n. rows (encoding ce) ! i
                       = replicate (num_thermometer_dim t)
                           (if temperature_sample_dist t = ''constant'' then 0 else 1)
                         @ rows pe ! i"
  proof (intro allI impI)
    fix i assume i: "i < n"
    then have i': "i < nrows (preferences ci)" by (simp only: np)
    then have "i < nrows (if temperature_sample_dist t = ''constant''
                     then zeros (nrows (preferences ci)) (num_thermometer_dim t)
                     else ones (nrows (preferences ci)) (num_thermometer_dim t))"
      by (simp only: beta_block_row(2))
    from cat_dim1_row [OF ce_c this] show "rows (encoding ce) ! i
                       = replicate (num_thermometer_dim t)
                           (if temperature_sample_dist t = ''constant'' then 0 else 1)
                         @ rows pe ! i"
      by (simp only: beta_block_row(1) [OF i'])
  qed
  from s0 b np pe cs rs e re ce_p
  show "\<exists>ci0 pe ce. sample_conditional_information t r n = Inr ci0
          \<and> beta ci = beta ci0
          \<and> nrows (preferences ci) = n
          \<and> spec_preference_encoding t (preferences ci) = Inr pe
          \<and> cat_dim1 (encoding ci0) pe = Inr (encoding ci)
          \<and> (\<forall>i<n. length (rows (encoding ci0) ! i) = num_thermometer_dim t
                  \<and> rows (encoding ci) ! i = rows (encoding ci0) ! i @ rows pe ! i)
          \<and> encode_conditional_information t (preferences ci) = Inr ce
          \<and> (\<forall>i<n. rows (encoding ce) ! i
                       = replicate (num_thermometer_dim t)
                           (if temperature_sample_dist t = ''constant'' then 0 else 1)
                         @ rows pe ! i)
          \<and> preferences ce = preferences ci"
    by blast
qed

lemma example_sample:
  "moo_sample_conditional_information example_moo_task example_rng 1
     = Inr \<lparr>beta = [32], beta_lib = Numpy,
            encoding = \<lparr>ncols = 10, rows = [[0, 0, 1 / 2, 0, 1 / 2, 0, 1 / 2, 0, 1 / 2, 0]]\<rparr>,
            preferences = \<lparr>ncols = 4, rows = [[1 / 4, 1 / 4, 1 / 4, 1 / 4]]\<rparr>\<rparr>"
  by (simp add: moo_sample_conditional_information_def sample_conditional_information_def
        example_moo_task_def Let_def zeros_def thermometer2_def thermometer_def reshape_rows_def
        cat_dim1_def nrows_def clip_def upt_rec numeral_2_eq_2)

lemma example_pref_encoding:
  "spec_preference_encoding example_moo_task \<lparr>ncols = 4, rows = [[1 / 4, 1 / 4, 1 / 4, 1 / 4]]\<rparr>
     = Inr \<lparr>ncols = 8, rows = [[1 / 2, 0, 1 / 2, 0, 1 / 2, 0, 1 / 2, 0]]\<rparr>"
  by (simp add: spec_preference_encoding_def example_moo_task_def thermometer2_def
        thermometer_def reshape_rows_def clip_def upt_rec numeral_2_eq_2)

theorem encode_reproduces_sampling_scheme_witness:
  "\<exists>ce. encode_conditional_information example_moo_task
            \<lparr>ncols = 4, rows = [[1 / 4, 1 / 4, 1 / 4, 1 / 4]]\<rparr> = Inr ce
      \<and> beta ce = [32]
      \<and> rows (encoding ce) ! 0 = [0, 0, 1 / 2, 0, 1 / 2, 0, 1 / 2, 0, 1 / 2, 0]
      \<and> preferences ce = \<lparr>ncols = 4, rows = [[1 / 4, 1 / 4, 1 / 4, 1 / 4]]\<rparr>"
proof -
  let ?P = "\<lparr>ncols = 4, rows = [[1 / 4, 1 / 4, 1 / 4, 1 / 4 :: real]]\<rparr>"
  let ?ci = "\<lparr>beta = [32], beta_lib = Numpy,
              encoding = \<lparr>ncols = 10, rows = [[0, 0, 1 / 2, 0, 1 / 2, 0, 1 / 2, 0, 1 / 2, 0]]\<rparr>,
              preferences = ?P\<rparr>"
  note th = encode_reproduces_sampling_scheme [of example_moo_task]
  have pc: "preferences ?ci = ?P" by simp
  from th [THEN conjunct2, rule_format, OF example_sample] obtain pe ce where
    pe: "spec_preference_encoding example_moo_task (preferences ?ci) = Inr pe"
    and e: "encode_conditional_information example_moo_task (preferences ?ci) = Inr ce"
    and r: "\<forall>i<1. rows (encoding ce) ! i
              = replicate (num_thermometer_dim example_moo_task)
                  (if temperature_sample_dist example_moo_task = ''constant'' then 0 else 1)
                @ rows pe ! i"
    and p: "preferences ce = preferences ?ci"
    by blast
  from e have e': "encode_conditional_information example_moo_task ?P = Inr ce"
    by (simp only: pc)
  from th [THEN conjunct1, rule_format, OF e'] obtain pe' where
    b: "beta ce = replicate (nrows ?P)
             (case temperature_dist_params example_moo_task of
                PFloat b \<Rightarrow> b | PPair x y \<Rightarrow> y)"
    by blast
  from pe have "pe = \<lparr>ncols = 8, rows = [[1 / 2, 0, 1 / 2, 0, 1 / 2, 0, 1 / 2, 0]]\<rparr>"
    by (simp only: pc example_pref_encoding) simp
  with r [rule_format, of 0]
  have "rows (encoding ce) ! 0 = [0, 0, 1 / 2, 0, 1 / 2, 0, 1 / 2, 0, 1 / 2, 0]"
    by (simp add: example_moo_task_def numeral_2_eq_2)
  moreover from b have "beta ce = [32]"
    by (simp add: example_moo_task_def nrows_def)
  moreover from p have "preferences ce = ?P" by (simp only: pc)
  ultimately show ?thesis using e' by blast
qed

section \<open>The sampling-model update\<close>

lemma optimizer_step_other:
  "x \<notin> set addrs \<Longrightarrow> optimizer_step opt i addrs s x = s x"
  by (induction addrs arbitrary: i s) simp_all

lemma optimizer_step_nth:
  "distinct addrs \<Longrightarrow> j < length addrs
     \<Longrightarrow> optimizer_step opt i addrs s (addrs ! j) = opt (i + j) (s (addrs ! j))"
proof (induction addrs arbitrary: i j s)
  case Nil
  then show ?case by simp
next
  case (Cons a as)
  show ?case
  proof (cases j)
    case 0
    with Cons.prems show ?thesis by (simp add: optimizer_step_other)
  next
    case (Suc k)
    with Cons.prems have k: "k < length as" and d: "distinct as" and ne: "as ! k \<noteq> a"
      by auto
    from Cons.IH [OF d k, of "Suc i" "s(a := opt i (s a))"] Suc ne
    show ?thesis by (simp add: fun_upd_def)
  qed
qed

lemma ema_combine:
  "length bs = length as \<Longrightarrow>
   map2 (+) (map (\<lambda>x. x * (tau :: real)) bs) (map (\<lambda>y. y * (1 - tau)) as)
     = map2 (\<lambda>old new. tau * old + (1 - tau) * new) bs as"
  by (induction bs as rule: list_induct2) (simp_all add: algebra_simps)

lemma ema_loop_result:
  assumes "distinct (map snd ps)"
    and "set (map fst ps) \<inter> set (map snd ps) = {}"
    and "\<forall>(a, b)\<in>set ps. length (s b) = length (s a)"
  shows "\<exists>s'. ema_loop tau ps s = Inr s'
           \<and> (\<forall>x. x \<notin> set (map snd ps) \<longrightarrow> s' x = s x)
           \<and> (\<forall>(a, b)\<in>set ps.
                 s' b = map2 (\<lambda>old new. tau * old + (1 - tau) * new) (s b) (s a))"
  using assms
proof (induction ps arbitrary: s)
  case Nil
  then show ?case by simp
next
  case (Cons p ps)
  obtain a b where p: "p = (a, b)" by (cases p)
  let ?v = "map2 (\<lambda>old new. tau * old + (1 - tau) * new) (s b) (s a)"
  let ?s1 = "s(b := map (\<lambda>x. x * tau) (s b))"
  let ?s2 = "?s1(b := ?v)"
  from Cons.prems p have ab: "a \<noteq> b" and len: "length (s b) = length (s a)"
    and bn: "b \<notin> set (map snd ps)" and bf: "b \<notin> set (map fst ps)"
    and d: "distinct (map snd ps)"
    and dj: "set (map fst ps) \<inter> set (map snd ps) = {}"
    by auto
  have add: "add_inplace (?s1 b) (map (\<lambda>y. y * (1 - tau)) (?s1 a)) = Inr ?v"
    using ab len by (simp add: add_inplace_def ema_combine)
  have unfold: "ema_loop tau (p # ps) s = ema_loop tau ps ?s2"
    using add by (simp add: p Let_def)
  have pres: "\<forall>(a', b')\<in>set ps. length (?s2 b') = length (?s2 a')"
  proof (clarify)
    fix a' b' assume m: "(a', b') \<in> set ps"
    then have "b' \<noteq> b" "a' \<noteq> b" using bn bf by force+
    moreover from m Cons.prems(3) have "length (s b') = length (s a')" by auto
    ultimately show "length (?s2 b') = length (?s2 a')" by simp
  qed
  from Cons.IH [OF d dj pres] obtain s' where
    r: "ema_loop tau ps ?s2 = Inr s'"
    and o: "\<forall>x. x \<notin> set (map snd ps) \<longrightarrow> s' x = ?s2 x"
    and e: "\<forall>(a', b')\<in>set ps.
              s' b' = map2 (\<lambda>old new. tau * old + (1 - tau) * new) (?s2 b') (?s2 a')"
    by blast
  have o': "\<forall>x. x \<notin> set (map snd (p # ps)) \<longrightarrow> s' x = s x"
    using o p by simp
  have e': "\<forall>(a', b')\<in>set (p # ps).
              s' b' = map2 (\<lambda>old new. tau * old + (1 - tau) * new) (s b') (s a')"
  proof (clarify)
    fix a' b' assume m: "(a', b') \<in> set (p # ps)"
    show "s' b' = map2 (\<lambda>old new. tau * old + (1 - tau) * new) (s b') (s a')"
    proof (cases "(a', b') = (a, b)")
      case True
      then show ?thesis using o bn by simp
    next
      case False
      with m p have m': "(a', b') \<in> set ps" by auto
      then have "b' \<noteq> b" "a' \<noteq> b" using bn bf by force+
      with e m' show ?thesis by auto
    qed
  qed
  from unfold r o' e' show ?case by simp
qed

lemma separate_setup:
  assumes "0 < tau"
  shows "separate (setup_sampling_model tau params)
       \<and> sampling_tau (setup_sampling_model tau params) = tau
       \<and> length (model (setup_sampling_model tau params)) = length params"
proof -
  let ?k = "length params"
  have d: "distinct ([0..<?k] @ [?k..<2 * ?k])" by auto
  have l: "list_all (\<lambda>(a, b).
              length (if b < ?k then params ! b
                      else if b < 2 * ?k then params ! (b - ?k) else [])
            = length (if a < ?k then params ! a
                      else if a < 2 * ?k then params ! (a - ?k) else []))
            (zip [0..<?k] [?k..<2 * ?k])"
    by (auto simp: list_all_iff in_set_zip)
  from d l assms show ?thesis
    by (simp add: setup_sampling_model_def separate_def Let_def)
qed

lemma step_ema:
  assumes tau: "0 < sampling_tau t" and sep: "separate t"
    and shp: "\<forall>i v. length (opt i v) = length v"
  shows "\<exists>t'. step opt t = Inr t' \<and> model t' = model t
           \<and> sampling_model t' = sampling_model t \<and> sampling_tau t' = sampling_tau t
           \<and> separate t'
           \<and> (\<forall>i<length (model t).
                 store t' (model t ! i) = opt i (store t (model t ! i))
               \<and> store t' (sampling_model t ! i)
                   = map2 (\<lambda>old new. sampling_tau t * old + (1 - sampling_tau t) * new)
                       (store t (sampling_model t ! i)) (store t' (model t ! i)))"
proof -
  let ?m = "model t" and ?sm = "sampling_model t" and ?tau = "sampling_tau t"
  let ?s1 = "optimizer_step opt 0 ?m (store t)"
  let ?ps = "zip ?m ?sm"
  from sep have dm: "distinct ?m" and ds: "distinct ?sm" and dj: "set ?m \<inter> set ?sm = {}"
    and len: "length ?sm = length ?m"
    and sz: "\<forall>(a, b)\<in>set ?ps. length (store t b) = length (store t a)"
    by (auto simp: separate_def list_all_iff)
  have fst: "map fst ?ps = ?m" and snd: "map snd ?ps = ?sm"
    using len by simp_all
  have s1m: "\<And>i. i < length ?m \<Longrightarrow> ?s1 (?m ! i) = opt i (store t (?m ! i))"
    using optimizer_step_nth [OF dm, of _ opt 0 "store t"] by simp
  have s1o: "\<And>x. x \<notin> set ?m \<Longrightarrow> ?s1 x = store t x"
    by (rule optimizer_step_other)
  have s1s: "\<And>i. i < length ?m \<Longrightarrow> ?s1 (?sm ! i) = store t (?sm ! i)"
  proof -
    fix i assume "i < length ?m"
    then have "?sm ! i \<in> set ?sm" using len by simp
    with dj have "?sm ! i \<notin> set ?m" by auto
    then show "?s1 (?sm ! i) = store t (?sm ! i)" by (rule s1o)
  qed
  have sz1: "\<forall>(a, b)\<in>set ?ps. length (?s1 b) = length (?s1 a)"
  proof (clarify)
    fix a b assume ab: "(a, b) \<in> set ?ps"
    then obtain i where i: "i < length ?m" "a = ?m ! i" "b = ?sm ! i"
      using len by (auto simp: in_set_zip)
    from ab sz have "length (store t b) = length (store t a)" by auto
    with i s1m [OF i(1)] s1s [OF i(1)] shp show "length (?s1 b) = length (?s1 a)"
      by simp
  qed
  from ema_loop_result [of ?ps ?s1 ?tau] ds dj sz1 fst snd obtain s' where
    r: "ema_loop ?tau ?ps ?s1 = Inr s'"
    and o: "\<forall>x. x \<notin> set ?sm \<longrightarrow> s' x = ?s1 x"
    and e: "\<forall>(a, b)\<in>set ?ps.
              s' b = map2 (\<lambda>old new. ?tau * old + (1 - ?tau) * new) (?s1 b) (?s1 a)"
    by auto
  let ?t' = "t\<lparr>store := s'\<rparr>"
  have st: "step opt t = Inr ?t'"
    using tau r by (simp add: step_def Let_def)
  have ent: "\<forall>i<length ?m.
       s' (?m ! i) = opt i (store t (?m ! i))
     \<and> s' (?sm ! i) = map2 (\<lambda>old new. ?tau * old + (1 - ?tau) * new)
                         (store t (?sm ! i)) (s' (?m ! i))"
  proof (intro allI impI)
    fix i assume i: "i < length ?m"
    then have "?m ! i \<in> set ?m" by simp
    with dj have "?m ! i \<notin> set ?sm" by auto
    with o have a: "s' (?m ! i) = ?s1 (?m ! i)" by simp
    from i len have "(?m ! i, ?sm ! i) \<in> set ?ps"
      by (auto simp: in_set_zip)
    with e have "s' (?sm ! i)
        = map2 (\<lambda>old new. ?tau * old + (1 - ?tau) * new) (?s1 (?sm ! i)) (?s1 (?m ! i))"
      by auto
    with a s1m [OF i] s1s [OF i]
    show "s' (?m ! i) = opt i (store t (?m ! i))
     \<and> s' (?sm ! i) = map2 (\<lambda>old new. ?tau * old + (1 - ?tau) * new)
                         (store t (?sm ! i)) (s' (?m ! i))"
      by simp
  qed
  have sz': "\<forall>(a, b)\<in>set ?ps. length (s' b) = length (s' a)"
  proof (clarify)
    fix a b assume ab: "(a, b) \<in> set ?ps"
    then obtain i where i: "i < length ?m" "a = ?m ! i" "b = ?sm ! i"
      using len by (auto simp: in_set_zip)
    from ab sz have "length (store t b) = length (store t a)" by auto
    with i ent shp show "length (s' b) = length (s' a)" by simp
  qed
  have sep': "separate ?t'"
    using sep sz' by (simp add: separate_def list_all_iff)
  from st sep' ent show ?thesis by simp
qed

lemma run_steps_separate:
  assumes "0 < sampling_tau t" and "separate t"
    and "\<forall>opt\<in>set opts. \<forall>i v. length (opt i v) = length v"
  shows "\<exists>t'. run_steps opts t = Inr t' \<and> separate t' \<and> sampling_tau t' = sampling_tau t
            \<and> length (model t') = length (model t)"
  using assms
proof (induction opts arbitrary: t)
  case Nil
  then show ?case by simp
next
  case (Cons opt opts)
  from Cons.prems have shp: "\<forall>i v. length (opt i v) = length v" by simp
  from step_ema [OF Cons.prems(1,2) shp] obtain t1 where
    s: "step opt t = Inr t1" and m: "model t1 = model t"
    and tau: "sampling_tau t1 = sampling_tau t" and sep: "separate t1"
    by blast
  from Cons.prems(1) tau have p: "0 < sampling_tau t1" by simp
  from Cons.prems(3) have r: "\<forall>opt\<in>set opts. \<forall>i v. length (opt i v) = length v" by simp
  from Cons.IH [OF p sep r] s m tau show ?case by simp
qed

text \<open>
  Claim C9. With \<^verbatim>\<open>sampling_tau > 0\<close> the sampling model set up by the trainer is a
  separate copy, and after any number of gradient steps the next step leaves every
  parameter of the trained model at the value the optimizers gave it and sets every
  parameter of the sampling model to \<open>tau\<close> times its previous value plus \<open>1 - tau\<close>
  times the newly trained parameter (the optimizers keeping the shapes of the
  parameters).
\<close>

theorem ema_sampling_update:
  assumes tau: "0 < tau"
    and prev: "\<forall>opt\<in>set opts. \<forall>i v. length (opt i v) = length v"
    and shp: "\<forall>i v. length (opt i v) = length v"
  shows "\<exists>t t'. run_steps opts (setup_sampling_model tau params) = Inr t
           \<and> step opt t = Inr t'
           \<and> length (model t) = length params
           \<and> model t' = model t \<and> sampling_model t' = sampling_model t
           \<and> (\<forall>i<length (model t).
                 store t' (model t ! i) = opt i (store t (model t ! i))
               \<and> store t' (sampling_model t ! i)
                   = map2 (\<lambda>old new. tau * old + (1 - tau) * new)
                       (store t (sampling_model t ! i)) (store t' (model t ! i)))"
proof -
  let ?t0 = "setup_sampling_model tau params"
  from separate_setup [OF tau, of params]
  have s0: "separate ?t0" and t0: "sampling_tau ?t0 = tau"
    and l0: "length (model ?t0) = length params"
    by simp_all
  from tau t0 have p0: "0 < sampling_tau ?t0" by simp
  from run_steps_separate [OF p0 s0 prev] t0 l0 obtain t where
    r: "run_steps opts ?t0 = Inr t" and sep: "separate t" and tt: "sampling_tau t = tau"
    and lt: "length (model t) = length params"
    by auto
  from tau tt have pt: "0 < sampling_tau t" by simp
  from step_ema [OF pt sep shp] tt obtain t' where
    "step opt t = Inr t'" "model t' = model t" "sampling_model t' = sampling_model t"
    "\<forall>i<length (model t).
        store t' (model t ! i) = opt i (store t (model t ! i))
      \<and> store t' (sampling_model t ! i)
          = map2 (\<lambda>old new. tau * old + (1 - tau) * new)
              (store t (sampling_model t ! i)) (store t' (model t ! i))"
    by auto
  with r lt show ?thesis by blast
qed

theorem ema_sampling_update_witness:
  "\<exists>t'. step (\<lambda>i v. map (\<lambda>x. x + 10) v) (setup_sampling_model (9 / 10) [[1, 2]]) = Inr t'
      \<and> store t' 0 = [11, 12] \<and> store t' 1 = [2, 3]"
proof -
  let ?opt = "\<lambda>(i :: nat) (v :: real list). map (\<lambda>x. x + 10) v"
  let ?t0 = "setup_sampling_model (9 / 10) [[1, 2]]"
  have a: "(0 :: real) < 9 / 10" by simp
  have b: "\<forall>opt\<in>set []. \<forall>(i :: nat) (v :: real list). length (opt i v) = length v" by simp
  have c: "\<forall>i v. length (?opt i v) = length v" by simp
  have m: "model ?t0 = [0]" "sampling_model ?t0 = [1]" "store ?t0 0 = [1, 2]"
    "store ?t0 (Suc 0) = [1, 2]"
    by (simp_all add: setup_sampling_model_def Let_def upt_rec)
  from ema_sampling_update [OF a b c, of "[[1, 2]]"] obtain t t' where
    r: "run_steps [] ?t0 = Inr t" and s: "step ?opt t = Inr t'"
    and e: "\<forall>i<length (model t).
                 store t' (model t ! i) = ?opt i (store t (model t ! i))
               \<and> store t' (sampling_model t ! i)
                   = map2 (\<lambda>old new. 9 / 10 * old + (1 - 9 / 10) * new)
                       (store t (sampling_model t ! i)) (store t' (model t ! i))"
    by blast
  from r have t: "t = ?t0" by simp
  from e have "store t' 0 = [11, 12] \<and> store t' 1 = [2, 3]"
    by (simp add: t m)
  with s t show ?thesis by blast
qed

end
